theory Spec2Isabelle
  imports Main
begin

section \<open>The chain porter of tapfreighter/chain_porter.go\<close>

text \<open>
  The porter drives one transfer (a parcel) through a linear pipeline of send states. Every
  collaborator it calls (asset wallet, Bitcoin wallet, chain bridge, export log, proof
  archive, courier) is an interface of \<^verbatim>\<open>ChainPorterConfig\<close>; here an interface is a
  record of functions giving the answer of the collaborator to each call. The calls that
  change the outside world are written to a trace of events, in program order. A Go function
  either returns its results or panics (a nil dereference, an index out of range).
\<close>

subsection \<open>Errors and panics\<close>

text \<open>
  Go error values. \<open>Errorf\<close> is an error without a cause (its message), \<open>Wrapped\<close> is
  \<^verbatim>\<open>fmt.Errorf("ctx: %w", err)\<close> (the context is the constant part of the format string),
  \<open>ErrDoubleSpend\<close> is the sentinel \<^verbatim>\<open>lnwallet.ErrDoubleSpend\<close> and \<open>BackoffExecError\<close> the
  error type \<^verbatim>\<open>*proof.BackoffExecError\<close>.
\<close>

datatype error =
    Errorf string
  | ErrDoubleSpend
  | BackoffExecError string
  | Wrapped string error

text \<open>\<^verbatim>\<open>errors.Is(err, lnwallet.ErrDoubleSpend)\<close>: the sentinel anywhere in the chain.\<close>

fun errors_Is_ErrDoubleSpend :: "error \<Rightarrow> bool" where
  "errors_Is_ErrDoubleSpend ErrDoubleSpend = True"
| "errors_Is_ErrDoubleSpend (Wrapped c e) = errors_Is_ErrDoubleSpend e"
| "errors_Is_ErrDoubleSpend _ = False"

text \<open>\<^verbatim>\<open>errors.As(err, &backoffExecErr)\<close>: a backoff error anywhere in the chain.\<close>

fun errors_As_BackoffExecError :: "error \<Rightarrow> bool" where
  "errors_As_BackoffExecError (BackoffExecError m) = True"
| "errors_As_BackoffExecError (Wrapped c e) = errors_As_BackoffExecError e"
| "errors_As_BackoffExecError _ = False"

text \<open>\<^verbatim>\<open>err.Error()\<close>, the message of an error.\<close>

fun Error :: "error \<Rightarrow> string" where
  "Error (Errorf m) = m"
| "Error ErrDoubleSpend = ''transaction rejected: output already spent''"
| "Error (BackoffExecError m) = m"
| "Error (Wrapped c e) = c @ '': '' @ Error e"

fun hasPrefix :: "string \<Rightarrow> string \<Rightarrow> bool" where
  "hasPrefix s [] = True"
| "hasPrefix [] (c # cs) = False"
| "hasPrefix (x # xs) (c # cs) = (x = c \<and> hasPrefix xs cs)"

text \<open>\<^verbatim>\<open>strings.Contains(s, substr)\<close>.\<close>

fun strings_Contains :: "string \<Rightarrow> string \<Rightarrow> bool" where
  "strings_Contains [] sub = (sub = [])"
| "strings_Contains (x # xs) sub = (hasPrefix (x # xs) sub \<or> strings_Contains xs sub)"

datatype panic = NilDereference | IndexOutOfRange

datatype 'a go = Returns 'a | Panics panic

subsection \<open>Data\<close>

type_synonym Hash = nat
type_synonym OutPoint = "Hash \<times> nat"
type_synonym PublicKey = nat
type_synonym SerializedKey = "nat list"
type_synonym AssetID = nat
type_synonym Blob = "nat list"

text \<open>\<^verbatim>\<open>asset.PrevID\<close>: the outpoint, asset ID and script key of an input.\<close>

record PrevID =
  pOutPoint :: OutPoint
  pID :: AssetID
  pScriptKey :: SerializedKey

record TweakedScriptKey =
  RawKey :: nat
  Tweak :: "nat list"

text \<open>\<^verbatim>\<open>asset.ScriptKey\<close>: the public key and the embedded pointer to the tweak information.\<close>

record ScriptKey =
  PubKey :: PublicKey
  TweakedScriptKey :: "TweakedScriptKey option"

record Witness =
  wPrevID :: "PrevID option"
  TxWitness :: "nat list list"

record Asset =
  aID :: AssetID
  aScriptKey :: ScriptKey

text \<open>
  \<^verbatim>\<open>proof.File\<close> and \<^verbatim>\<open>proof.Proof\<close> are declared outside this file. A file is the list of
  the encoded proofs of one lineage; of a proof, the porter reads the witnesses of its asset
  and appends to \<open>AdditionalInputs\<close>; the rest of a proof is \<open>pRest\<close>.
\<close>

type_synonym File = "Blob list"

record Proof =
  pWitnesses :: "Witness list"
  AdditionalInputs :: "File list"
  pRest :: "nat list"

record Locator =
  lAssetID :: AssetID
  lScriptKey :: PublicKey
  lOutPoint :: OutPoint

record AnnotatedProof =
  Locator :: Locator
  Blob :: Blob

record TxOut =
  PkScript :: "nat list"
  Value :: int

record MsgTx =
  TxIn :: "OutPoint list"
  TxOut :: "TxOut list"

record FundedPsbt =
  LockedUTXOs :: "OutPoint list"
  ChangeOutputIndex :: int

record AnchorTransaction =
  FundedPsbt :: "FundedPsbt option"
  FinalTx :: MsgTx

record VInput =
  viPrevID :: PrevID

record VOutput =
  voAsset :: Asset
  voScriptKey :: ScriptKey
  voProofSuffix :: Proof

record VPacket =
  vInputs :: "VInput list"
  vOutputs :: "VOutput list"

record TransferInput =
  tiPrevID :: PrevID
  tiAmount :: nat

text \<open>\<^verbatim>\<open>TransferOutput\<close>; \<open>oAnchorOutPoint\<close> is \<^verbatim>\<open>out.Anchor.OutPoint\<close>.\<close>

record TransferOutput =
  oAnchorOutPoint :: OutPoint
  oScriptKey :: ScriptKey
  ScriptKeyLocal :: bool
  Amount :: nat
  oProofSuffix :: Blob
  ProofCourierAddr :: "nat list"
  WitnessData :: "Witness list"

record OutboundParcel =
  opAnchorTx :: MsgTx
  AnchorTxHeightHint :: nat
  opInputs :: "TransferInput list"
  opOutputs :: "TransferOutput list"
  opPassiveAssets :: "VPacket list"

record TxConfirmation =
  BlockHash :: Hash
  BlockHeight :: nat
  TxIndex :: nat
  Tx :: MsgTx
  Block :: "nat list"

record BaseProofParams =
  bBlock :: "nat list"
  bBlockHeight :: nat
  bTx :: MsgTx
  bTxIndex :: nat

type_synonym TapCommitment = nat
type_synonym Address = "nat list"

datatype Parcel =
    AddressParcel (destAddrs: "Address list") (transferFeeRate: "nat option")
  | PreSignedParcel "VPacket list"
  | PendingParcel OutboundParcel

text \<open>
  Modelled from the spec: the type \<^verbatim>\<open>SendState\<close> and its constants are declared in
  parcel.go, a file of the package that is not among the sources. Section 3 of the
  specification gives
  the enumeration in its order, VirtualCommitmentSelect first and Complete last; the Go type
  is an unsigned integer, so a value above Complete exists and is the unknown state of
  \<^verbatim>\<open>stateStep\<close>'s default branch.
\<close>

type_synonym SendState = nat

definition SendStateVirtualCommitmentSelect :: SendState where
  "SendStateVirtualCommitmentSelect = 0"
definition SendStateVirtualSign :: SendState where
  "SendStateVirtualSign = 1"
definition SendStateAnchorSign :: SendState where
  "SendStateAnchorSign = 2"
definition SendStateStorePreBroadcast :: SendState where
  "SendStateStorePreBroadcast = 3"
definition SendStateBroadcast :: SendState where
  "SendStateBroadcast = 4"
definition SendStateWaitTxConf :: SendState where
  "SendStateWaitTxConf = 5"
definition SendStateStoreProofs :: SendState where
  "SendStateStoreProofs = 6"
definition SendStateTransferProofs :: SendState where
  "SendStateTransferProofs = 7"
definition SendStateComplete :: SendState where
  "SendStateComplete = 8"

lemmas SendState_defs =
  SendStateVirtualCommitmentSelect_def SendStateVirtualSign_def SendStateAnchorSign_def
  SendStateStorePreBroadcast_def SendStateBroadcast_def SendStateWaitTxConf_def
  SendStateStoreProofs_def SendStateTransferProofs_def SendStateComplete_def

text \<open>
  \<^verbatim>\<open>sendPackage\<close>, the in-flight state of one transfer. A pointer that the code tests
  against nil is an option; \<open>FinalProofs\<close> is a Go map (nil until \<^verbatim>\<open>storeProofs\<close> makes it),
  kept as an association list whose order is the order a \<^verbatim>\<open>range\<close> visits it in.
\<close>

record sendPackage =
  SendState :: SendState
  Parcel :: Parcel
  VirtualPackets :: "VPacket list"
  InputCommitments :: "(PrevID \<times> TapCommitment) list"
  PassiveAssets :: "VPacket list"
  AnchorTx :: "AnchorTransaction option"
  OutboundPkg :: "OutboundParcel option"
  TransferTxConfEvent :: "TxConfirmation option"
  FinalProofs :: "(SerializedKey \<times> AnnotatedProof) list option"

record AssetConfirmEvent =
  AnchorTXID :: Hash
  ceBlockHash :: Hash
  ceBlockHeight :: nat
  ceTxIndex :: nat
  ceFinalProofs :: "(SerializedKey \<times> AnnotatedProof) list option"
  PassiveAssetProofFiles :: "(AssetID \<times> AnnotatedProof list) list"

record Recipient =
  rScriptKey :: PublicKey
  rAssetID :: AssetID
  rAmount :: nat

text \<open>\<^verbatim>\<open>fn.EventReceiver\<close>: a subscriber with its identifier.\<close>

record EventReceiver =
  receiverID :: nat
  queue :: "nat list"

subsection \<open>Events\<close>

text \<open>The calls the porter makes that change the world outside it, in program order.\<close>

datatype event =
    Ev_UnlockInput OutPoint
  | Ev_ImportTaprootOutput PublicKey
  | Ev_LogPendingParcel OutboundParcel
  | Ev_PublishTransaction MsgTx
  | Ev_TxBroadcastResp
  | Ev_RegisterConfirmationsNtfn Hash
  | Ev_FetchProof Locator
  | Ev_ImportProofs "AnnotatedProof list"
  | Ev_WatchProofs "Proof list"
  | Ev_NewCourier "nat list" Recipient
  | Ev_SetSubscribers
  | Ev_DeliverProof AnnotatedProof
  | Ev_CourierClose
  | Ev_ConfirmParcelDelivery AssetConfirmEvent
  | Ev_SubscriberEvent SendState "error option"
  | Ev_ErrChan error
  | Ev_GoTransferReceiverProof
  | Ev_QuitReceived

subsection \<open>Event subscription\<close>

text \<open>
  \<^verbatim>\<open>RegisterSubscriber\<close> stores the receiver under its ID in the subscriber map and returns
  nil; \<^verbatim>\<open>receiver.ID()\<close> dereferences the receiver. The mutex only serialises callers. The
  result is the new subscriber map and the returned error.
\<close>

definition RegisterSubscriber ::
  "(nat \<rightharpoonup> EventReceiver) \<Rightarrow> EventReceiver option \<Rightarrow> bool \<Rightarrow> bool
    \<Rightarrow> ((nat \<rightharpoonup> EventReceiver) \<times> error option) go" where
  "RegisterSubscriber subscribers receiver deliverExisting deliverFrom =
     (case receiver of
        None \<Rightarrow> Panics NilDereference
      | Some r \<Rightarrow> Returns (subscribers(receiverID r \<mapsto> r), None))"

subsection \<open>Collaborators\<close>

text \<open>
  The interfaces of \<^verbatim>\<open>ChainPorterConfig\<close>. A method is the function from its arguments to
  what the collaborator answers; an interface with one method is that function
  (\<^verbatim>\<open>KeyRing.IsLocalKey\<close>, \<^verbatim>\<open>ProofWriter.ImportProofs\<close>, \<^verbatim>\<open>ProofReader.FetchProof\<close>,
  \<^verbatim>\<open>ProofWatcher.WatchProofs\<close>, \<^verbatim>\<open>ProofCourierDispatcher.NewCourier\<close>). A method that changes
  the object it is given through a pointer returns the changed object.
\<close>

record AssetWallet =
  FundAddressSend :: "Address list \<Rightarrow> error + (VPacket \<times> (PrevID \<times> TapCommitment) list)"
  SignVirtualPacket :: "VPacket \<Rightarrow> error + VPacket"
  CreatePassiveAssets ::
    "VPacket list \<Rightarrow> (PrevID \<times> TapCommitment) list \<Rightarrow> error + VPacket list"
  SignPassiveAssets :: "VPacket list \<Rightarrow> error + VPacket list"
  AnchorVirtualTransactions :: "nat \<Rightarrow> VPacket list \<Rightarrow> VPacket list \<Rightarrow> error + AnchorTransaction"

record ChainBridge =
  EstimateFee :: "error + nat"
  CurrentHeight :: "error + nat"
  PublishTransaction :: "MsgTx \<Rightarrow> error option"
  RegisterConfirmationsNtfn :: "Hash \<Rightarrow> nat list \<Rightarrow> nat \<Rightarrow> error option"

record WalletAnchor =
  ImportTaprootOutput :: "PublicKey \<Rightarrow> error option"
  UnlockInput :: "OutPoint \<Rightarrow> error option"

record ExportLog =
  LogPendingParcel :: "OutboundParcel \<Rightarrow> error option"
  ConfirmParcelDelivery :: "AssetConfirmEvent \<Rightarrow> error option"

record Courier =
  DeliverProof :: "AnnotatedProof \<Rightarrow> error option"

record ChainPorterConfig =
  ExportLog :: ExportLog
  ChainBridge :: ChainBridge
  Wallet :: WalletAnchor
  KeyRing :: "nat \<Rightarrow> bool"
  AssetWallet :: AssetWallet
  ProofWriter :: "AnnotatedProof list \<Rightarrow> error option"
  ProofReader :: "Locator \<Rightarrow> error + Blob"
  ProofCourierDispatcher :: "nat list \<Rightarrow> Recipient \<Rightarrow> error + Courier"
  ProofWatcher :: "Proof list \<Rightarrow> error option"

text \<open>
  The functions of other packages that the porter calls (\<^verbatim>\<open>wire\<close>, \<^verbatim>\<open>txscript\<close>,
  \<^verbatim>\<open>schnorr\<close>, \<^verbatim>\<open>btcec\<close>, \<^verbatim>\<open>asset\<close>, \<^verbatim>\<open>proof\<close>, \<^verbatim>\<open>tapsend\<close>) and the two functions of
  this package that are declared in another file (\<^verbatim>\<open>ConvertToTransfer\<close>,
  \<^verbatim>\<open>validateReadyForPublish\<close>). They are parameters of the model.
\<close>

record Library =
  TxHash :: "MsgTx \<Rightarrow> Hash"
  ValidateVPacketVersions :: "VPacket list \<Rightarrow> error option"
  ExtractUnSpendable :: "TapCommitment \<Rightarrow> Asset list"
  ExtractWitnessProgramInfo :: "nat list \<Rightarrow> error + nat list"
  schnorr_ParsePubKey :: "nat list \<Rightarrow> error + PublicKey"
  btcec_ParsePubKey :: "SerializedKey \<Rightarrow> error + PublicKey"
  ToSerialized :: "PublicKey \<Rightarrow> SerializedKey"
  UpdateTransitionProof :: "BaseProofParams \<Rightarrow> Proof \<Rightarrow> error + Proof"
  ProofOutPoint :: "Proof \<Rightarrow> OutPoint"
  ProofDecode :: "Blob \<Rightarrow> error + Proof"
  FileDecode :: "Blob \<Rightarrow> error + File"
  AppendProof :: "File \<Rightarrow> Proof \<Rightarrow> error + File"
  FileEncode :: "File \<Rightarrow> error + Blob"
  Verify :: "Blob \<Rightarrow> error option"
  IsUnSpendable :: "ScriptKey \<Rightarrow> error + bool"
  IsBurnKey :: "PublicKey \<Rightarrow> Witness \<Rightarrow> bool"
  ParseCourierAddress :: "nat list \<Rightarrow> error + nat list"
  ConvertToTransfer ::
    "nat \<Rightarrow> VPacket list \<Rightarrow> AnchorTransaction option \<Rightarrow> VPacket list \<Rightarrow> (ScriptKey \<Rightarrow> bool)
      \<Rightarrow> error + OutboundParcel"
  validateReadyForPublish :: "sendPackage \<Rightarrow> (OutPoint \<times> Asset list) list \<Rightarrow> error option"

text \<open>
  What the scheduler decides: the case that the \<^verbatim>\<open>select\<close> of \<^verbatim>\<open>waitForTransferTxConf\<close>
  takes, and whether the channel \<^verbatim>\<open>Quit\<close> is already closed when \<^verbatim>\<open>advanceState\<close> polls
  it before executing a state.
\<close>

datatype selected =
    Confirmed TxConfirmation
  | ErrChan error
  | CtxDone
  | QuitCase

record Scheduler =
  selectCase :: selected
  QuitClosed :: "SendState \<Rightarrow> bool"

record ChainPorter =
  cfg :: ChainPorterConfig
  lib :: Library
  sched :: Scheduler

subsection \<open>Unlocking the inputs\<close>

text \<open>
  \<^verbatim>\<open>unlockInputs\<close>: nothing without an anchor transaction or a funded PSBT; otherwise one
  \<^verbatim>\<open>UnlockInput\<close> for each locked UTXO, a failure of which is only logged.
\<close>

definition unlockInputs :: "ChainPorter \<Rightarrow> sendPackage \<Rightarrow> event list" where
  "unlockInputs p pkg =
     (case AnchorTx pkg of
        None \<Rightarrow> []
      | Some a \<Rightarrow>
          (case FundedPsbt a of
             None \<Rightarrow> []
           | Some f \<Rightarrow> map Ev_UnlockInput (LockedUTXOs f)))"

subsection \<open>The proof-file updater\<close>

text \<open>\<^verbatim>\<open>fetchInputProof\<close>: the proof file of an input, fetched from the archive and decoded.\<close>

definition fetchInputProof :: "ChainPorter \<Rightarrow> PrevID \<Rightarrow> (error + File) \<times> event list" where
  "fetchInputProof p input =
     (case btcec_ParsePubKey (lib p) (pScriptKey input) of
        Inl e \<Rightarrow> (Inl (Wrapped ''error parsing script key'' e), [])
      | Inr scriptKey \<Rightarrow>
          (let inputProofLocator =
                 \<lparr>lAssetID = pID input, lScriptKey = scriptKey, lOutPoint = pOutPoint input\<rparr>
           in case ProofReader (cfg p) inputProofLocator of
                Inl e \<Rightarrow> (Inl (Wrapped ''error fetching input proof -- locator'' e),
                          [Ev_FetchProof inputProofLocator])
              | Inr inputProofBytes \<Rightarrow>
                  (case FileDecode (lib p) inputProofBytes of
                     Inl e \<Rightarrow> (Inl (Wrapped ''error decoding input proof'' e),
                               [Ev_FetchProof inputProofLocator])
                   | Inr inputProofFile \<Rightarrow>
                       (Inr inputProofFile, [Ev_FetchProof inputProofLocator]))))"

text \<open>
  The loop of \<^verbatim>\<open>updateAssetProofFile\<close> over the inputs from index 1 on: each proof file is
  appended to \<open>AdditionalInputs\<close> of the suffix; the first failure ends the loop.
\<close>

fun additionalInputProofs ::
  "ChainPorter \<Rightarrow> PrevID list \<Rightarrow> Proof \<Rightarrow> Proof \<times> error option \<times> event list" where
  "additionalInputProofs p [] proofSuffix = (proofSuffix, None, [])"
| "additionalInputProofs p (input # rest) proofSuffix =
     (case fetchInputProof p input of
        (Inl e, ev) \<Rightarrow>
          (proofSuffix, Some (Wrapped ''error fetching additional input proof'' e), ev)
      | (Inr additionalInputProofFile, ev) \<Rightarrow>
          (case additionalInputProofs p rest
                  (proofSuffix\<lparr>AdditionalInputs :=
                     AdditionalInputs proofSuffix @ [additionalInputProofFile]\<rparr>) of
             (proofSuffix', r, ev') \<Rightarrow> (proofSuffix', r, ev @ ev')))"

text \<open>
  \<^verbatim>\<open>updateAssetProofFile\<close>. The suffix is behind a pointer and is changed in place, so the
  result carries the suffix as the call leaves it, beside the returned proof or error (after
  a failed \<^verbatim>\<open>UpdateTransitionProof\<close> the suffix is taken as unchanged). \<^verbatim>\<open>confEvent\<close> is
  dereferenced first; \<^verbatim>\<open>inputs[0]\<close> is read without a test of the length.
\<close>

definition updateAssetProofFile ::
  "ChainPorter \<Rightarrow> PrevID list \<Rightarrow> Proof \<Rightarrow> ScriptKey \<Rightarrow> TxConfirmation option
    \<Rightarrow> (Proof \<times> (error + AnnotatedProof)) go \<times> event list" where
  "updateAssetProofFile p inputs proofSuffix newScriptKey confEvent =
     (case confEvent of
        None \<Rightarrow> (Panics NilDereference, [])
      | Some ce \<Rightarrow>
      (case UpdateTransitionProof (lib p)
              \<lparr>bBlock = Block ce, bBlockHeight = BlockHeight ce, bTx = Tx ce,
               bTxIndex = TxIndex ce\<rparr> proofSuffix of
         Inl e \<Rightarrow> (Returns (proofSuffix, Inl (Wrapped ''error updating transition proof'' e)), [])
       | Inr updated \<Rightarrow>
       (case inputs of
          [] \<Rightarrow> (Panics IndexOutOfRange, [])
        | firstInput # rest \<Rightarrow>
        (case fetchInputProof p firstInput of
           (Inl e, ev) \<Rightarrow>
             (Returns (updated, Inl (Wrapped ''error fetching input proof'' e)), ev)
         | (Inr inputProofFile, ev) \<Rightarrow>
         (case additionalInputProofs p rest updated of
            (suffix, Some e, ev') \<Rightarrow> (Returns (suffix, Inl e), ev @ ev')
          | (suffix, None, ev') \<Rightarrow>
          (case AppendProof (lib p) inputProofFile suffix of
             Inl e \<Rightarrow> (Returns (suffix, Inl (Wrapped ''error appending proof'' e)), ev @ ev')
           | Inr appended \<Rightarrow>
           (case FileEncode (lib p) appended of
              Inl e \<Rightarrow> (Returns (suffix, Inl (Wrapped ''error encoding proof'' e)), ev @ ev')
            | Inr outputProofBuf \<Rightarrow>
                (Returns (suffix,
                   Inr \<lparr>Locator = \<lparr>lAssetID = pID firstInput, lScriptKey = PubKey newScriptKey,
                                    lOutPoint = ProofOutPoint (lib p) suffix\<rparr>,
                        Blob = outputProofBuf\<rparr>), ev @ ev'))))))))"

subsection \<open>Storing the proofs\<close>

text \<open>A store into a Go map: the value of an existing key is replaced, a new key is added.\<close>

fun mapStore :: "'k \<Rightarrow> 'v \<Rightarrow> ('k \<times> 'v) list \<Rightarrow> ('k \<times> 'v) list" where
  "mapStore k v [] = [(k, v)]"
| "mapStore k v ((k', v') # m) = (if k' = k then (k, v) # m else (k', v') # mapStore k v m)"

text \<open>
  The first loop of \<^verbatim>\<open>storeProofs\<close>, over the passive packets: the proof file of the first
  output of each packet is updated from the packet's inputs. The result is the packets as
  the loop leaves them (the suffix of an output is changed through its pointer) and either
  the error that ended the loop or the proof files and the suffixes, in the order of the
  packets.
\<close>

fun passiveAssetProofs ::
  "ChainPorter \<Rightarrow> TxConfirmation option \<Rightarrow> VPacket list
    \<Rightarrow> (VPacket list \<times> (error + AnnotatedProof list \<times> Proof list)) go \<times> event list" where
  "passiveAssetProofs p confEvent [] = (Returns ([], Inr ([], [])), [])"
| "passiveAssetProofs p confEvent (pkt # pkts) =
     (case vOutputs pkt of
        [] \<Rightarrow> (Panics IndexOutOfRange, [])
      | passiveOut # outs \<Rightarrow>
      (case updateAssetProofFile p (map viPrevID (vInputs pkt)) (voProofSuffix passiveOut)
              (aScriptKey (voAsset passiveOut)) confEvent of
         (Panics pn, ev) \<Rightarrow> (Panics pn, ev)
       | (Returns (suffix, Inl e), ev) \<Rightarrow>
           (Returns (pkt\<lparr>vOutputs := passiveOut\<lparr>voProofSuffix := suffix\<rparr> # outs\<rparr> # pkts,
              Inl (Wrapped ''failed to generate an updated proof file for passive asset'' e)),
            ev)
       | (Returns (suffix, Inr newAnnotatedProofFile), ev) \<Rightarrow>
       (case passiveAssetProofs p confEvent pkts of
          (Panics pn, ev') \<Rightarrow> (Panics pn, ev @ ev')
        | (Returns (pkts', Inl e), ev') \<Rightarrow>
            (Returns (pkt\<lparr>vOutputs := passiveOut\<lparr>voProofSuffix := suffix\<rparr> # outs\<rparr> # pkts',
               Inl e), ev @ ev')
        | (Returns (pkts', Inr (files, suffixes)), ev') \<Rightarrow>
            (Returns (pkt\<lparr>vOutputs := passiveOut\<lparr>voProofSuffix := suffix\<rparr> # outs\<rparr> # pkts',
               Inr (newAnnotatedProofFile # files, suffix # suffixes)), ev @ ev'))))"

text \<open>
  The inputs of the parcel that an output spends: for each input, in order, one entry for
  each witness of the suffix whose \<open>PrevID\<close> is set and equal to the input's.
\<close>

definition inputsForAsset :: "TransferInput list \<Rightarrow> Proof \<Rightarrow> PrevID list" where
  "inputsForAsset ins parsedSuffix =
     concat (map (\<lambda>i. map (\<lambda>w. tiPrevID i)
                        (filter (\<lambda>w. wPrevID w \<noteq> None \<and> Some (tiPrevID i) = wPrevID w)
                           (pWitnesses parsedSuffix))) ins)"

text \<open>
  The second loop of \<^verbatim>\<open>storeProofs\<close>, over the outputs of the parcel: decode the suffix,
  update the proof file, store it in \<open>FinalProofs\<close>, verify it, import it, and hand the
  suffix of a local output with a tweaked script key to the re-org watcher. The result is the
  map \<open>FinalProofs\<close> as the loop leaves it and the error that ended it, if any.
\<close>

fun outputProofs ::
  "ChainPorter \<Rightarrow> TxConfirmation option \<Rightarrow> TransferInput list \<Rightarrow> TransferOutput list
    \<Rightarrow> (SerializedKey \<times> AnnotatedProof) list
    \<Rightarrow> ((SerializedKey \<times> AnnotatedProof) list \<times> error option) go \<times> event list" where
  "outputProofs p confEvent ins [] finalProofs = (Returns (finalProofs, None), [])"
| "outputProofs p confEvent ins (out # outs) finalProofs =
     (case ProofDecode (lib p) (oProofSuffix out) of
        Inl e \<Rightarrow> (Returns (finalProofs, Some (Wrapped ''error decoding proof suffix'' e)), [])
      | Inr parsedSuffix \<Rightarrow>
      (case updateAssetProofFile p (inputsForAsset ins parsedSuffix) parsedSuffix
              (oScriptKey out) confEvent of
         (Panics pn, ev) \<Rightarrow> (Panics pn, ev)
       | (Returns (suffix, Inl e), ev) \<Rightarrow>
           (Returns (finalProofs,
              Some (Wrapped ''failed to generate an updated proof file for output'' e)), ev)
       | (Returns (suffix, Inr outputProof), ev) \<Rightarrow>
       (let finalProofs' =
              mapStore (ToSerialized (lib p) (PubKey (oScriptKey out))) outputProof finalProofs
        in case Verify (lib p) (Blob outputProof) of
             Some e \<Rightarrow> (Returns (finalProofs', Some (Wrapped ''error verifying proof'' e)), ev)
           | None \<Rightarrow>
           (case ProofWriter (cfg p) [outputProof] of
              Some e \<Rightarrow>
                (Returns (finalProofs', Some (Wrapped ''error importing proof'' e)),
                 ev @ [Ev_ImportProofs [outputProof]])
            | None \<Rightarrow>
            (if TweakedScriptKey (oScriptKey out) \<noteq> None \<and> ScriptKeyLocal out then
               (case ProofWatcher (cfg p) [suffix] of
                  Some e \<Rightarrow>
                    (Returns (finalProofs', Some (Wrapped ''error watching proof'' e)),
                     ev @ [Ev_ImportProofs [outputProof], Ev_WatchProofs [suffix]])
                | None \<Rightarrow>
                    (case outputProofs p confEvent ins outs finalProofs' of
                       (r, ev') \<Rightarrow>
                         (r, ev @ [Ev_ImportProofs [outputProof], Ev_WatchProofs [suffix]]
                               @ ev')))
             else
               (case outputProofs p confEvent ins outs finalProofs' of
                  (r, ev') \<Rightarrow> (r, ev @ [Ev_ImportProofs [outputProof]] @ ev')))))))"

text \<open>
  \<^verbatim>\<open>storeProofs\<close>: the package as the call leaves it and the returned error. The parcel
  pointer is first dereferenced at \<^verbatim>\<open>len(parcel.Inputs)\<close>, after the passive proofs.
\<close>

definition storeProofs ::
  "ChainPorter \<Rightarrow> sendPackage \<Rightarrow> (sendPackage \<times> error option) go \<times> event list" where
  "storeProofs p sendPkg =
     (case passiveAssetProofs p (TransferTxConfEvent sendPkg) (PassiveAssets sendPkg) of
        (Panics pn, ev) \<Rightarrow> (Panics pn, ev)
      | (Returns (pkts, Inl e), ev) \<Rightarrow> (Returns (sendPkg\<lparr>PassiveAssets := pkts\<rparr>, Some e), ev)
      | (Returns (pkts, Inr (passiveAssetProofFiles, passiveAssetProofSuffixes)), ev) \<Rightarrow>
      (let sendPkg1 = sendPkg\<lparr>PassiveAssets := pkts\<rparr>;
           ev1 = ev @ [Ev_ImportProofs passiveAssetProofFiles]
       in case ProofWriter (cfg p) passiveAssetProofFiles of
            Some e \<Rightarrow> (Returns (sendPkg1, Some (Wrapped ''error importing passive proof'' e)), ev1)
          | None \<Rightarrow>
          (let watch = (if passiveAssetProofSuffixes \<noteq> []
                        then ProofWatcher (cfg p) passiveAssetProofSuffixes else None);
               ev2 = ev1 @ (if passiveAssetProofSuffixes \<noteq> []
                            then [Ev_WatchProofs passiveAssetProofSuffixes] else [])
           in case watch of
                Some e \<Rightarrow> (Returns (sendPkg1, Some (Wrapped ''error watching proof'' e)), ev2)
              | None \<Rightarrow>
              (case OutboundPkg sendPkg of
                 None \<Rightarrow> (Panics NilDereference, ev2)
               | Some parcel \<Rightarrow>
                   (if opInputs parcel = [] then
                      (Returns (sendPkg1\<lparr>SendState := SendStateTransferProofs\<rparr>, None), ev2)
                    else
                      (case outputProofs p (TransferTxConfEvent sendPkg) (opInputs parcel)
                              (opOutputs parcel) [] of
                         (Panics pn, ev') \<Rightarrow> (Panics pn, ev2 @ ev')
                       | (Returns (finalProofs, Some e), ev') \<Rightarrow>
                           (Returns (sendPkg1\<lparr>FinalProofs := Some finalProofs\<rparr>, Some e),
                            ev2 @ ev')
                       | (Returns (finalProofs, None), ev') \<Rightarrow>
                           (Returns (sendPkg1\<lparr>FinalProofs := Some finalProofs,
                                       SendState := SendStateTransferProofs\<rparr>, None),
                            ev2 @ ev')))))))"

subsection \<open>Delivering the proofs\<close>

text \<open>
  The search of \<^verbatim>\<open>deliver\<close> through \<open>FinalProofs\<close>: the first proof met whose locator has
  the script key of the output.
\<close>

fun findReceiverProof ::
  "(SerializedKey \<times> AnnotatedProof) list \<Rightarrow> PublicKey \<Rightarrow> AnnotatedProof option" where
  "findReceiverProof [] key = None"
| "findReceiverProof ((k, finalFile) # m) key =
     (if lScriptKey (Locator finalFile) = key then Some finalFile
      else findReceiverProof m key)"

text \<open>
  The closure \<^verbatim>\<open>deliver\<close> of \<^verbatim>\<open>transferReceiverProof\<close>, for one output: the returned error,
  and the calls made on the dispatcher and on the courier.
\<close>

definition deliver :: "ChainPorter \<Rightarrow> sendPackage \<Rightarrow> TransferOutput \<Rightarrow> error option \<times> event list" where
  "deliver p pkg out =
     (let key = PubKey (oScriptKey out) in
      if TweakedScriptKey (oScriptKey out) \<noteq> None \<and> ScriptKeyLocal out then (None, [])
      else
      (case IsUnSpendable (lib p) (oScriptKey out) of
         Inl e \<Rightarrow> (Some (Wrapped ''error checking if script key is unspendable'' e), [])
       | Inr unSpendable \<Rightarrow>
       (if unSpendable then (None, [])
        else if (case WitnessData out of [] \<Rightarrow> False | w # ws \<Rightarrow> IsBurnKey (lib p) key w)
        then (None, [])
        else if ProofCourierAddr out = [] then (None, [])
        else
        (case findReceiverProof (case FinalProofs pkg of None \<Rightarrow> [] | Some m \<Rightarrow> m) key of
           None \<Rightarrow> (Some (Errorf ''no proof found for output with script key''), [])
         | Some receiverProof \<Rightarrow>
         (case ParseCourierAddress (lib p) (ProofCourierAddr out) of
            Inl e \<Rightarrow> (Some (Wrapped ''failed to parse proof courier address'' e), [])
          | Inr proofCourierAddr \<Rightarrow>
          (let recipient = \<lparr>rScriptKey = key, rAssetID = lAssetID (Locator receiverProof),
                             rAmount = Amount out\<rparr>
           in case ProofCourierDispatcher (cfg p) proofCourierAddr recipient of
                Inl e \<Rightarrow>
                  (Some (Wrapped ''unable to initiate proof courier service handle'' e),
                   [Ev_NewCourier proofCourierAddr recipient])
              | Inr courier \<Rightarrow>
                  (let ev = [Ev_NewCourier proofCourierAddr recipient, Ev_SetSubscribers,
                             Ev_DeliverProof receiverProof, Ev_CourierClose]
                   in case DeliverProof courier receiverProof of
                        None \<Rightarrow> (None, ev)
                      | Some e \<Rightarrow>
                          (if errors_As_BackoffExecError e then (None, ev)
                           else (Some (Wrapped ''failed to deliver proof via courier service'' e),
                                 ev)))))))))"

text \<open>
  Modelled from the spec: \<^verbatim>\<open>fn.ParSlice\<close> is declared in a package that is not among
  the sources. By section 4.4 the deliveries for all outputs run in parallel, backoff errors
  are swallowed and other errors are returned: every delivery runs, the call returns when
  all have returned, and its result is an error of a delivery if there is one. Of the
  interleavings, the model takes the one in the order of the slice, and the first error in
  that order.
\<close>

fun ParSlice :: "('a \<Rightarrow> error option \<times> event list) \<Rightarrow> 'a list \<Rightarrow> error option \<times> event list" where
  "ParSlice f [] = (None, [])"
| "ParSlice f (v # vs) =
     (case f v of
        (r, ev) \<Rightarrow>
          (case ParSlice f vs of
             (r', ev') \<Rightarrow> ((case r of Some e \<Rightarrow> Some e | None \<Rightarrow> r'), ev @ ev')))"

text \<open>An append of a list to the list stored under a key of a Go map of slices.\<close>

fun mapExtend :: "'k \<Rightarrow> 'v list \<Rightarrow> ('k \<times> 'v list) list \<Rightarrow> ('k \<times> 'v list) list" where
  "mapExtend k xs [] = [(k, xs)]"
| "mapExtend k xs ((k', vs) # m) =
     (if k' = k then (k, vs @ xs) # m else (k', vs) # mapExtend k xs m)"

text \<open>
  The loop of \<^verbatim>\<open>transferReceiverProof\<close> that loads the proof file of every passive asset
  from the archive.
\<close>

fun passiveProofFiles ::
  "ChainPorter \<Rightarrow> VPacket list \<Rightarrow> (AssetID \<times> AnnotatedProof list) list
    \<Rightarrow> (error + (AssetID \<times> AnnotatedProof list) list) go \<times> event list" where
  "passiveProofFiles p [] files = (Returns (Inr files), [])"
| "passiveProofFiles p (passivePkt # pkts) files =
     (case vOutputs passivePkt of
        [] \<Rightarrow> (Panics IndexOutOfRange, [])
      | passiveOut # outs \<Rightarrow>
          (let proofLocator = \<lparr>lAssetID = aID (voAsset passiveOut),
                               lScriptKey = PubKey (voScriptKey passiveOut),
                               lOutPoint = ProofOutPoint (lib p) (voProofSuffix passiveOut)\<rparr>
           in case ProofReader (cfg p) proofLocator of
                Inl e \<Rightarrow>
                  (Returns (Inl (Wrapped ''error fetching passive asset proof file'' e)),
                   [Ev_FetchProof proofLocator])
              | Inr proofFileBlob \<Rightarrow>
                  (case passiveProofFiles p pkts
                          (mapExtend (aID (voAsset passiveOut))
                             [\<lparr>Locator = proofLocator, Blob = proofFileBlob\<rparr>] files) of
                     (r, ev) \<Rightarrow> (r, Ev_FetchProof proofLocator # ev))))"

text \<open>
  \<^verbatim>\<open>transferReceiverProof\<close>: the package as the call leaves it and the returned error. The
  outbound parcel and the confirmation event are dereferenced without a test.
\<close>

definition transferReceiverProof ::
  "ChainPorter \<Rightarrow> sendPackage \<Rightarrow> (sendPackage \<times> error option) go \<times> event list" where
  "transferReceiverProof p pkg =
     (case OutboundPkg pkg of
        None \<Rightarrow> (Panics NilDereference, [])
      | Some parcel \<Rightarrow>
      (case ParSlice (deliver p pkg) (opOutputs parcel) of
         (Some e, ev) \<Rightarrow> (Returns (pkg, Some (Wrapped ''error delivering proof(s)'' e)), ev)
       | (None, ev) \<Rightarrow>
       (case passiveProofFiles p (opPassiveAssets parcel) [] of
          (Panics pn, ev') \<Rightarrow> (Panics pn, ev @ ev')
        | (Returns (Inl e), ev') \<Rightarrow> (Returns (pkg, Some e), ev @ ev')
        | (Returns (Inr passiveAssetProofFiles), ev') \<Rightarrow>
        (case TransferTxConfEvent pkg of
           None \<Rightarrow> (Panics NilDereference, ev @ ev')
         | Some ce \<Rightarrow>
         (let confirm = \<lparr>AnchorTXID = TxHash (lib p) (opAnchorTx parcel),
                         ceBlockHash = BlockHash ce, ceBlockHeight = BlockHeight ce,
                         ceTxIndex = TxIndex ce, ceFinalProofs = FinalProofs pkg,
                         PassiveAssetProofFiles = passiveAssetProofFiles\<rparr>
          in case ConfirmParcelDelivery (ExportLog (cfg p)) confirm of
               Some e \<Rightarrow>
                 (Returns (pkg, Some (Wrapped ''unable to log parcel delivery confirmation'' e)),
                  ev @ ev' @ [Ev_ConfirmParcelDelivery confirm])
             | None \<Rightarrow>
                 (Returns (pkg\<lparr>SendState := SendStateComplete\<rparr>, None),
                  ev @ ev' @ [Ev_ConfirmParcelDelivery confirm,
                              Ev_SubscriberEvent SendStateComplete None]))))))"

subsection \<open>Waiting for the confirmation\<close>

text \<open>
  \<^verbatim>\<open>waitForTransferTxConf\<close>: the package as the call leaves it and the returned error.
  After the registration the function blocks in a \<^verbatim>\<open>select\<close>; which case is taken is the
  scheduler's choice. The case \<^verbatim>\<open><-p.Quit\<close> can only be taken once the channel is closed,
  which the event \<open>Ev_QuitReceived\<close> records.
\<close>

definition waitForTransferTxConf ::
  "ChainPorter \<Rightarrow> sendPackage \<Rightarrow> (sendPackage \<times> error option) go \<times> event list" where
  "waitForTransferTxConf p pkg =
     (case OutboundPkg pkg of
        None \<Rightarrow> (Panics NilDereference, [])
      | Some outboundPkg \<Rightarrow>
      (let txHash = TxHash (lib p) (opAnchorTx outboundPkg) in
       case TxOut (opAnchorTx outboundPkg) of
         [] \<Rightarrow> (Panics IndexOutOfRange, [])
       | txOut0 # txOuts \<Rightarrow>
       (case RegisterConfirmationsNtfn (ChainBridge (cfg p)) txHash (PkScript txOut0)
               (AnchorTxHeightHint outboundPkg) of
          Some e \<Rightarrow>
            (Returns (pkg, Some (Wrapped ''unable to register for package tx conf'' e)),
             [Ev_RegisterConfirmationsNtfn txHash])
        | None \<Rightarrow>
        (case selectCase (sched p) of
           Confirmed confEvent \<Rightarrow>
             (Returns (pkg\<lparr>TransferTxConfEvent := Some confEvent,
                           SendState := SendStateStoreProofs\<rparr>, None),
              [Ev_RegisterConfirmationsNtfn txHash])
         | ErrChan e \<Rightarrow>
             (Returns (pkg,
                Some (Wrapped ''error whilst waiting for package tx confirmation'' e)),
              [Ev_RegisterConfirmationsNtfn txHash])
         | CtxDone \<Rightarrow>
             (Returns (pkg, Some (Errorf ''got empty package tx confirmation event in batch'')),
              [Ev_RegisterConfirmationsNtfn txHash])
         | QuitCase \<Rightarrow>
             (Returns (pkg, None), [Ev_RegisterConfirmationsNtfn txHash, Ev_QuitReceived])))))"

subsection \<open>Importing the local addresses\<close>

text \<open>
  The loop of \<^verbatim>\<open>importLocalAddresses\<close> over the outputs of the parcel: the anchor output of
  every local output is imported into the wallet; the error \<^verbatim>\<open>already exists\<close> is passed
  over.
\<close>

fun importOutputs ::
  "ChainPorter \<Rightarrow> MsgTx \<Rightarrow> TransferOutput list \<Rightarrow> error option go \<times> event list" where
  "importOutputs p anchorTx [] = (Returns None, [])"
| "importOutputs p anchorTx (out # outs) =
     (if \<not> ScriptKeyLocal out then importOutputs p anchorTx outs
      else
      (let anchorOutputIndex = snd (oAnchorOutPoint out) in
       if length (TxOut anchorTx) \<le> anchorOutputIndex then (Panics IndexOutOfRange, [])
       else
       (case ExtractWitnessProgramInfo (lib p) (PkScript (TxOut anchorTx ! anchorOutputIndex)) of
          Inl e \<Rightarrow> (Returns (Some e), [])
        | Inr witProgram \<Rightarrow>
        (case schnorr_ParsePubKey (lib p) witProgram of
           Inl e \<Rightarrow> (Returns (Some e), [])
         | Inr anchorOutputKey \<Rightarrow>
         (case ImportTaprootOutput (Wallet (cfg p)) anchorOutputKey of
            None \<Rightarrow>
              (case importOutputs p anchorTx outs of
                 (r, ev) \<Rightarrow> (r, Ev_ImportTaprootOutput anchorOutputKey # ev))
          | Some e \<Rightarrow>
              (if strings_Contains (Error e) ''already exists'' then
                 (case importOutputs p anchorTx outs of
                    (r, ev) \<Rightarrow> (r, Ev_ImportTaprootOutput anchorOutputKey # ev))
               else (Returns (Some e), [Ev_ImportTaprootOutput anchorOutputKey])))))))"

definition importLocalAddresses ::
  "ChainPorter \<Rightarrow> OutboundParcel option \<Rightarrow> error option go \<times> event list" where
  "importLocalAddresses p parcel =
     (case parcel of
        None \<Rightarrow> (Panics NilDereference, [])
      | Some parcel \<Rightarrow> importOutputs p (opAnchorTx parcel) (opOutputs parcel))"

subsection \<open>The state machine\<close>

text \<open>
  \<^verbatim>\<open>logPacket\<close> writes to the log only, but it reads \<^verbatim>\<open>vPkt.Outputs[0]\<close> when the packet
  has no output that is not a split root, which panics on a packet without outputs.
\<close>

definition logPacket :: "VPacket \<Rightarrow> panic option" where
  "logPacket vPkt = (if vOutputs vPkt = [] then Some IndexOutOfRange else None)"

text \<open>The first panic of \<^verbatim>\<open>logPacket\<close> over the packets, in order.\<close>

fun logPackets :: "VPacket list \<Rightarrow> panic option" where
  "logPackets [] = None"
| "logPackets (vPkt # vPkts) =
     (case logPacket vPkt of Some pn \<Rightarrow> Some pn | None \<Rightarrow> logPackets vPkts)"

text \<open>
  The loop of the state \<^verbatim>\<open>SendStateVirtualSign\<close>: every packet is logged and signed; the
  result is the signed packets or the error of the first signature that fails.
\<close>

fun signVirtualPackets :: "ChainPorter \<Rightarrow> VPacket list \<Rightarrow> (error + VPacket list) go" where
  "signVirtualPackets p [] = Returns (Inr [])"
| "signVirtualPackets p (vPkt # vPkts) =
     (case logPacket vPkt of
        Some pn \<Rightarrow> Panics pn
      | None \<Rightarrow>
      (case SignVirtualPacket (AssetWallet (cfg p)) vPkt of
         Inl e \<Rightarrow> Returns (Inl (Wrapped ''unable to sign and commit virtual packet'' e))
       | Inr signed \<Rightarrow>
           (case signVirtualPackets p vPkts of
              Panics pn \<Rightarrow> Panics pn
            | Returns (Inl e) \<Rightarrow> Returns (Inl e)
            | Returns (Inr rest) \<Rightarrow> Returns (Inr (signed # rest)))))"

text \<open>
  The assets that were committed to the input trees but pruned, by outpoint: the loop of the
  state \<^verbatim>\<open>SendStateAnchorSign\<close> over the input commitments.
\<close>

fun prunedAssets ::
  "ChainPorter \<Rightarrow> (PrevID \<times> TapCommitment) list \<Rightarrow> (OutPoint \<times> Asset list) list
    \<Rightarrow> (OutPoint \<times> Asset list) list" where
  "prunedAssets p [] m = m"
| "prunedAssets p ((prevID, c) # cs) m =
     prunedAssets p cs (mapExtend (pOutPoint prevID) (ExtractUnSpendable (lib p) c) m)"

type_synonym step = "(sendPackage option \<times> error option) go \<times> event list"

definition stepVirtualCommitmentSelect :: "ChainPorter \<Rightarrow> sendPackage \<Rightarrow> step" where
  "stepVirtualCommitmentSelect p currentPkg =
     (case Parcel currentPkg of
        AddressParcel addrs feeRate \<Rightarrow>
          (case FundAddressSend (AssetWallet (cfg p)) addrs of
             Inl e \<Rightarrow> (Returns (None, Some (Wrapped ''unable to fund address send'' e)), [])
           | Inr (vPacket, inputCommitments) \<Rightarrow>
               (Returns (Some (currentPkg\<lparr>VirtualPackets := [vPacket],
                                  InputCommitments := inputCommitments,
                                  SendState := SendStateVirtualSign\<rparr>), None), []))
      | _ \<Rightarrow> (Returns (None, Some (Errorf ''unable to cast parcel to address parcel'')), []))"

definition stepVirtualSign :: "ChainPorter \<Rightarrow> sendPackage \<Rightarrow> step" where
  "stepVirtualSign p currentPkg =
     (case ValidateVPacketVersions (lib p) (VirtualPackets currentPkg) of
        Some e \<Rightarrow> (Returns (None, Some e), [])
      | None \<Rightarrow>
          (case signVirtualPackets p (VirtualPackets currentPkg) of
             Panics pn \<Rightarrow> (Panics pn, [])
           | Returns (Inl e) \<Rightarrow> (Returns (None, Some e), [])
           | Returns (Inr vPackets) \<Rightarrow>
               (Returns (Some (currentPkg\<lparr>VirtualPackets := vPackets,
                                  SendState := SendStateAnchorSign\<rparr>), None), [])))"

text \<open>
  The fee rate of the state \<^verbatim>\<open>SendStateAnchorSign\<close>: the manual rate of an address parcel
  if it has one, the estimate of the chain bridge otherwise.
\<close>

definition feeRateFor :: "ChainPorter \<Rightarrow> sendPackage \<Rightarrow> error + nat" where
  "feeRateFor p currentPkg =
     (case Parcel currentPkg of
        AddressParcel addrs (Some rate) \<Rightarrow> Inr rate
      | _ \<Rightarrow>
          (case EstimateFee (ChainBridge (cfg p)) of
             Inl e \<Rightarrow> Inl (Wrapped ''unable to estimate fee'' e)
           | Inr rate \<Rightarrow> Inr rate))"

text \<open>
  The state \<^verbatim>\<open>SendStateAnchorSign\<close> up to the assignment of \<^verbatim>\<open>currentPkg.AnchorTx\<close>: the
  package with its passive assets and its anchor transaction, or the error met before.
\<close>

definition anchorPackets :: "ChainPorter \<Rightarrow> sendPackage \<Rightarrow> (error + sendPackage) go" where
  "anchorPackets p currentPkg =
     (case feeRateFor p currentPkg of
        Inl e \<Rightarrow> Returns (Inl e)
      | Inr feeRate \<Rightarrow>
      (case logPackets (VirtualPackets currentPkg) of
         Some pn \<Rightarrow> Panics pn
       | None \<Rightarrow>
       (case CreatePassiveAssets (AssetWallet (cfg p)) (VirtualPackets currentPkg)
               (InputCommitments currentPkg) of
          Inl e \<Rightarrow> Returns (Inl (Wrapped ''unable to create passive assets'' e))
        | Inr passive \<Rightarrow>
        (case SignPassiveAssets (AssetWallet (cfg p)) passive of
           Inl e \<Rightarrow> Returns (Inl (Wrapped ''unable to sign passive assets'' e))
         | Inr signedPassive \<Rightarrow>
         (case AnchorVirtualTransactions (AssetWallet (cfg p)) feeRate
                 (VirtualPackets currentPkg) signedPassive of
            Inl e \<Rightarrow> Returns (Inl (Wrapped ''unable to anchor virtual transactions'' e))
          | Inr anchorTx \<Rightarrow>
              Returns (Inr (currentPkg\<lparr>PassiveAssets := signedPassive,
                                       AnchorTx := Some anchorTx\<rparr>)))))))"

definition stepAnchorSign :: "ChainPorter \<Rightarrow> sendPackage \<Rightarrow> step" where
  "stepAnchorSign p currentPkg =
     (case anchorPackets p currentPkg of
        Panics pn \<Rightarrow> (Panics pn, [])
      | Returns (Inl e) \<Rightarrow> (Returns (None, Some e), [])
      | Returns (Inr anchored) \<Rightarrow>
          (case validateReadyForPublish (lib p) anchored
                  (prunedAssets p (InputCommitments anchored) []) of
             Some e \<Rightarrow>
               (Returns (None, Some (Wrapped ''unable to validate send package'' e)),
                unlockInputs p anchored)
           | None \<Rightarrow>
               (Returns (Some (anchored\<lparr>SendState := SendStateStorePreBroadcast\<rparr>), None),
                [])))"

text \<open>The closure \<^verbatim>\<open>isLocalKey\<close> of the state \<^verbatim>\<open>SendStateStorePreBroadcast\<close>.\<close>

definition isLocalKey :: "ChainPorter \<Rightarrow> ScriptKey \<Rightarrow> bool" where
  "isLocalKey p key =
     (case TweakedScriptKey key of
        None \<Rightarrow> False
      | Some t \<Rightarrow> KeyRing (cfg p) (RawKey t))"

definition stepStorePreBroadcast :: "ChainPorter \<Rightarrow> sendPackage \<Rightarrow> step" where
  "stepStorePreBroadcast p currentPkg =
     (case CurrentHeight (ChainBridge (cfg p)) of
        Inl e \<Rightarrow>
          (Returns (None, Some (Wrapped ''unable to get current height'' e)),
           unlockInputs p currentPkg)
      | Inr currentHeight \<Rightarrow>
      (case ConvertToTransfer (lib p) currentHeight (VirtualPackets currentPkg)
              (AnchorTx currentPkg) (PassiveAssets currentPkg) (isLocalKey p) of
         Inl e \<Rightarrow>
           (Returns (None, Some (Wrapped ''unable to prepare parcel for storage'' e)),
            unlockInputs p currentPkg)
       | Inr parcel \<Rightarrow>
       (let stored = currentPkg\<lparr>OutboundPkg := Some parcel\<rparr> in
        case LogPendingParcel (ExportLog (cfg p)) parcel of
          Some e \<Rightarrow>
            (Returns (None, Some (Wrapped ''unable to write send pkg to disk'' e)),
             Ev_LogPendingParcel parcel # unlockInputs p stored)
        | None \<Rightarrow>
            (Returns (Some (stored\<lparr>SendState := SendStateBroadcast\<rparr>), None),
             [Ev_LogPendingParcel parcel]))))"

definition stepBroadcast :: "ChainPorter \<Rightarrow> sendPackage \<Rightarrow> step" where
  "stepBroadcast p currentPkg =
     (case importLocalAddresses p (OutboundPkg currentPkg) of
        (Panics pn, ev) \<Rightarrow> (Panics pn, ev)
      | (Returns (Some e), ev) \<Rightarrow>
          (Returns (None, Some (Wrapped ''unable to import local addresses'' e)),
           ev @ unlockInputs p currentPkg)
      | (Returns None, ev) \<Rightarrow>
      (case OutboundPkg currentPkg of
         None \<Rightarrow> (Panics NilDereference, ev)
       | Some parcel \<Rightarrow>
       (case PublishTransaction (ChainBridge (cfg p)) (opAnchorTx parcel) of
          Some e \<Rightarrow>
            (if errors_Is_ErrDoubleSpend e then
               (Returns (None, Some (Wrapped ''unable to broadcast transaction'' e)),
                ev @ Ev_PublishTransaction (opAnchorTx parcel) # unlockInputs p currentPkg)
             else
               (Returns (None, Some (Wrapped ''unable to broadcast transaction'' e)),
                ev @ [Ev_PublishTransaction (opAnchorTx parcel)]))
        | None \<Rightarrow>
            (Returns (Some (currentPkg\<lparr>SendState := SendStateWaitTxConf\<rparr>), None),
             ev @ [Ev_PublishTransaction (opAnchorTx parcel), Ev_TxBroadcastResp]))))"


text \<open>
  \<^verbatim>\<open>stateStep\<close>: the returned package pointer (nil is \<open>None\<close>), the returned error, and the
  events of the step.
\<close>

definition stateStep :: "ChainPorter \<Rightarrow> sendPackage \<Rightarrow> step" where
  "stateStep p currentPkg =
     (if SendState currentPkg = SendStateVirtualCommitmentSelect then
        stepVirtualCommitmentSelect p currentPkg
      else if SendState currentPkg = SendStateVirtualSign then stepVirtualSign p currentPkg
      else if SendState currentPkg = SendStateAnchorSign then stepAnchorSign p currentPkg
      else if SendState currentPkg = SendStateStorePreBroadcast then
        stepStorePreBroadcast p currentPkg
      else if SendState currentPkg = SendStateBroadcast then stepBroadcast p currentPkg
      else if SendState currentPkg = SendStateWaitTxConf then
        (case waitForTransferTxConf p currentPkg of
           (Panics pn, ev) \<Rightarrow> (Panics pn, ev)
         | (Returns (pkg, err), ev) \<Rightarrow> (Returns (Some pkg, err), ev))
      else if SendState currentPkg = SendStateStoreProofs then
        (case storeProofs p currentPkg of
           (Panics pn, ev) \<Rightarrow> (Panics pn, ev)
         | (Returns (pkg, err), ev) \<Rightarrow> (Returns (Some pkg, err), ev))
      else if SendState currentPkg = SendStateTransferProofs then
        (Returns (Some (currentPkg\<lparr>SendState := SendStateComplete\<rparr>), None),
         [Ev_GoTransferReceiverProof])
      else (Returns (Some currentPkg, Some (Errorf ''unknown state'')), []))"

subsection \<open>The loop of a run\<close>

text \<open>
  A step that returns a package and no error has moved the package to a later state, or it
  has left the state as it was and has received from the closed channel \<^verbatim>\<open>Quit\<close>. This is
  what makes the loop of \<^verbatim>\<open>advanceState\<close> end.
\<close>

lemma waitForTransferTxConf_progress:
  "waitForTransferTxConf p pkg = (Returns (pkg', None), ev) \<Longrightarrow>
     SendState pkg' = SendStateStoreProofs \<or>
     (pkg' = pkg \<and> Ev_QuitReceived \<in> set ev)"
  by (auto simp: waitForTransferTxConf_def Let_def
           split: option.splits list.splits selected.splits)

lemma storeProofs_progress:
  "storeProofs p pkg = (Returns (pkg', None), ev) \<Longrightarrow> SendState pkg' = SendStateTransferProofs"
  by (auto simp: storeProofs_def Let_def
           split: option.splits list.splits prod.splits go.splits sum.splits if_splits)

lemma stepVirtualCommitmentSelect_progress:
  "stepVirtualCommitmentSelect p pkg = (Returns (Some pkg', None), ev) \<Longrightarrow>
     SendState pkg' = SendStateVirtualSign"
  by (auto simp: stepVirtualCommitmentSelect_def split: Parcel.splits sum.splits)

lemma stepVirtualSign_progress:
  "stepVirtualSign p pkg = (Returns (Some pkg', None), ev) \<Longrightarrow>
     SendState pkg' = SendStateAnchorSign"
  by (auto simp: stepVirtualSign_def split: option.splits go.splits sum.splits)

lemma stepAnchorSign_progress:
  "stepAnchorSign p pkg = (Returns (Some pkg', None), ev) \<Longrightarrow>
     SendState pkg' = SendStateStorePreBroadcast"
  by (auto simp: stepAnchorSign_def split: option.splits sum.splits go.splits)

lemma stepStorePreBroadcast_progress:
  "stepStorePreBroadcast p pkg = (Returns (Some pkg', None), ev) \<Longrightarrow>
     SendState pkg' = SendStateBroadcast"
  by (auto simp: stepStorePreBroadcast_def Let_def split: option.splits sum.splits)

lemma stepBroadcast_progress:
  "stepBroadcast p pkg = (Returns (Some pkg', None), ev) \<Longrightarrow>
     SendState pkg' = SendStateWaitTxConf"
  by (auto simp: stepBroadcast_def split: option.splits prod.splits go.splits if_splits)

lemma stateStep_progress:
  assumes "stateStep p pkg = (Returns (Some pkg', None), ev)"
  shows "SendState pkg < SendState pkg' \<or>
         (SendState pkg' = SendState pkg \<and> Ev_QuitReceived \<in> set ev)"
proof -
  consider (s0) "SendState pkg = SendStateVirtualCommitmentSelect"
    | (s1) "SendState pkg = SendStateVirtualSign"
    | (s2) "SendState pkg = SendStateAnchorSign"
    | (s3) "SendState pkg = SendStateStorePreBroadcast"
    | (s4) "SendState pkg = SendStateBroadcast"
    | (s5) "SendState pkg = SendStateWaitTxConf"
    | (s6) "SendState pkg = SendStateStoreProofs"
    | (s7) "SendState pkg = SendStateTransferProofs"
    | (other) "SendStateTransferProofs < SendState pkg"
    unfolding SendState_defs by linarith
  then show ?thesis
  proof cases
    case s0
    with assms have "stepVirtualCommitmentSelect p pkg = (Returns (Some pkg', None), ev)"
      by (simp add: stateStep_def)
    from stepVirtualCommitmentSelect_progress[OF this] s0 show ?thesis
      by (simp add: SendState_defs)
  next
    case s1
    with assms have "stepVirtualSign p pkg = (Returns (Some pkg', None), ev)"
      by (simp add: stateStep_def SendState_defs)
    from stepVirtualSign_progress[OF this] s1 show ?thesis
      by (simp add: SendState_defs)
  next
    case s2
    with assms have "stepAnchorSign p pkg = (Returns (Some pkg', None), ev)"
      by (simp add: stateStep_def SendState_defs)
    from stepAnchorSign_progress[OF this] s2 show ?thesis
      by (simp add: SendState_defs)
  next
    case s3
    with assms have "stepStorePreBroadcast p pkg = (Returns (Some pkg', None), ev)"
      by (simp add: stateStep_def SendState_defs)
    from stepStorePreBroadcast_progress[OF this] s3 show ?thesis
      by (simp add: SendState_defs)
  next
    case s4
    with assms have "stepBroadcast p pkg = (Returns (Some pkg', None), ev)"
      by (simp add: stateStep_def SendState_defs)
    from stepBroadcast_progress[OF this] s4 show ?thesis
      by (simp add: SendState_defs)
  next
    case s5
    with assms have "waitForTransferTxConf p pkg = (Returns (pkg', None), ev)"
      by (auto simp: stateStep_def SendState_defs split: prod.splits go.splits)
    from waitForTransferTxConf_progress[OF this] s5 show ?thesis
      by (auto simp: SendState_defs)
  next
    case s6
    with assms have "storeProofs p pkg = (Returns (pkg', None), ev)"
      by (auto simp: stateStep_def SendState_defs split: prod.splits go.splits)
    from storeProofs_progress[OF this] s6 show ?thesis
      by (simp add: SendState_defs)
  next
    case s7
    with assms show ?thesis
      by (auto simp: stateStep_def SendState_defs)
  next
    case other
    with assms show ?thesis
      by (auto simp: stateStep_def SendState_defs)
  qed
qed

text \<open>
  \<^verbatim>\<open>advanceState\<close>: while the package is not complete, poll \<^verbatim>\<open>Quit\<close>, execute the state,
  report an error on the error channel and to the subscribers and stop, or report the
  executed state to the subscribers and go on with the updated package. \<open>closed\<close> says
  that the channel \<^verbatim>\<open>Quit\<close> is known to be closed (a closed channel stays closed). The
  result is the list of the states executed, the events, and the package the loop ends with.
\<close>

function advanceState ::
  "ChainPorter \<Rightarrow> bool \<Rightarrow> sendPackage \<Rightarrow> SendState list \<times> event list \<times> sendPackage go" where
  "advanceState p closed pkg =
     (if SendState pkg < SendStateComplete then
        (if closed \<or> QuitClosed (sched p) (SendState pkg) then ([], [], Returns pkg)
         else
           (case stateStep p pkg of
              (Panics pn, ev) \<Rightarrow> ([SendState pkg], ev, Panics pn)
            | (Returns (updatedPkg, Some err), ev) \<Rightarrow>
                ([SendState pkg],
                 ev @ [Ev_ErrChan err, Ev_SubscriberEvent (SendState pkg) (Some err)],
                 Returns pkg)
            | (Returns (None, None), ev) \<Rightarrow> ([SendState pkg], ev, Panics NilDereference)
            | (Returns (Some updatedPkg, None), ev) \<Rightarrow>
                (case advanceState p (Ev_QuitReceived \<in> set ev) updatedPkg of
                   (executed, evs, r) \<Rightarrow>
                     (SendState pkg # executed,
                      ev @ Ev_SubscriberEvent (SendState pkg) None # evs, r))))
      else ([], [], Returns pkg))"
  by pat_completeness auto
termination
proof (relation "measures [\<lambda>(p, closed, pkg). SendStateComplete - SendState pkg,
                           \<lambda>(p, closed, pkg). if closed then 0 else 1]", goal_cases)
  case 1
  then show ?case by simp
next
  case (2 p closed pkg x1 ev x2 x3 x4 updatedPkg)
  then have "stateStep p pkg = (Returns (Some updatedPkg, None), ev)" by simp
  from stateStep_progress[OF this] 2 show ?case by auto
qed

declare advanceState.simps [simp del]

subsection \<open>What a trace shows\<close>

text \<open>The outpoints that a trace unlocks, in order.\<close>

fun unlocked :: "event list \<Rightarrow> OutPoint list" where
  "unlocked [] = []"
| "unlocked (Ev_UnlockInput op # evs) = op # unlocked evs"
| "unlocked (ev # evs) = unlocked evs"

text \<open>The UTXOs that an anchor transaction holds locked in the wallet.\<close>

definition lockedUTXOs :: "AnchorTransaction option \<Rightarrow> OutPoint list" where
  "lockedUTXOs anchorTx =
     (case anchorTx of
        None \<Rightarrow> []
      | Some a \<Rightarrow> (case FundedPsbt a of None \<Rightarrow> [] | Some f \<Rightarrow> LockedUTXOs f))"






text \<open>
  The conditions of section 4.4 of the specification under which the delivery of an output
  is skipped: the output is local, its script key is unspendable, its first witness marks it
  as a burn, or it has no proof courier address.
\<close>

definition skipDelivery :: "ChainPorter \<Rightarrow> TransferOutput \<Rightarrow> bool" where
  "skipDelivery p out =
     ((ScriptKeyLocal out \<and> TweakedScriptKey (oScriptKey out) \<noteq> None) \<or>
      IsUnSpendable (lib p) (oScriptKey out) = Inr True \<or>
      (case WitnessData out of
         [] \<Rightarrow> False
       | w # ws \<Rightarrow> IsBurnKey (lib p) (PubKey (oScriptKey out)) w) \<or>
      ProofCourierAddr out = [])"

subsection \<open>A sample transfer\<close>

text \<open>
  A transfer of one input to a remote receiver with change, and collaborators that answer
  every call with success; the properties below are tried on it and on variants of it.
\<close>

definition sampleTx :: MsgTx where
  "sampleTx = \<lparr>TxIn = [(7, 0)],
               TxOut = [\<lparr>PkScript = [81, 32], Value = 1000\<rparr>, \<lparr>PkScript = [81, 33], Value = 1000\<rparr>]\<rparr>"

definition sampleAnchorTx :: AnchorTransaction where
  "sampleAnchorTx =
     \<lparr>FundedPsbt = Some \<lparr>LockedUTXOs = [(7, 0), (8, 1)], ChangeOutputIndex = 1\<rparr>,
      FinalTx = sampleTx\<rparr>"

definition firstPrevID :: PrevID where
  "firstPrevID = \<lparr>pOutPoint = (5, 0), pID = 1, pScriptKey = [21]\<rparr>"

definition secondPrevID :: PrevID where
  "secondPrevID = \<lparr>pOutPoint = (6, 1), pID = 1, pScriptKey = [22]\<rparr>"

text \<open>The proof file that the sample archive holds for the second input.\<close>

definition secondInputFile :: File where
  "secondInputFile = (1 # 22 # []) # []"

definition remoteOutput :: TransferOutput where
  "remoteOutput =
     \<lparr>oAnchorOutPoint = (77, 0), oScriptKey = \<lparr>PubKey = 31, TweakedScriptKey = None\<rparr>,
      ScriptKeyLocal = False, Amount = 1200, oProofSuffix = [1], ProofCourierAddr = [104],
      WitnessData = []\<rparr>"

definition changeOutput :: TransferOutput where
  "changeOutput =
     \<lparr>oAnchorOutPoint = (77, 1),
      oScriptKey = \<lparr>PubKey = 32, TweakedScriptKey = Some \<lparr>RawKey = 9, Tweak = []\<rparr>\<rparr>,
      ScriptKeyLocal = True, Amount = 3800, oProofSuffix = [2], ProofCourierAddr = [],
      WitnessData = []\<rparr>"

definition sampleParcel :: OutboundParcel where
  "sampleParcel =
     \<lparr>opAnchorTx = sampleTx, AnchorTxHeightHint = 100,
      opInputs = [\<lparr>tiPrevID = firstPrevID, tiAmount = 5000\<rparr>],
      opOutputs = [remoteOutput, changeOutput], opPassiveAssets = []\<rparr>"

definition sampleConf :: TxConfirmation where
  "sampleConf = \<lparr>BlockHash = 500, BlockHeight = 101, TxIndex = 3, Tx = sampleTx, Block = [1, 2, 3]\<rparr>"

definition sampleAddress :: Address where
  "sampleAddress = [1]"

definition samplePkg :: sendPackage where
  "samplePkg =
     \<lparr>SendState = SendStateBroadcast, Parcel = AddressParcel (sampleAddress # []) None, VirtualPackets = [],
      InputCommitments = [], PassiveAssets = [], AnchorTx = Some sampleAnchorTx,
      OutboundPkg = Some sampleParcel, TransferTxConfEvent = None, FinalProofs = None\<rparr>"

definition sampleConfig :: ChainPorterConfig where
  "sampleConfig =
     \<lparr>ExportLog = \<lparr>LogPendingParcel = (\<lambda>parcel. None), ConfirmParcelDelivery = (\<lambda>c. None)\<rparr>,
      ChainBridge = \<lparr>EstimateFee = Inr 253, CurrentHeight = Inr 100,
                     PublishTransaction = (\<lambda>tx. None),
                     RegisterConfirmationsNtfn = (\<lambda>h s n. None)\<rparr>,
      Wallet = \<lparr>ImportTaprootOutput = (\<lambda>k. None), UnlockInput = (\<lambda>op. None)\<rparr>,
      KeyRing = (\<lambda>k. True),
      AssetWallet = \<lparr>FundAddressSend = (\<lambda>addrs. Inr (\<lparr>vInputs = [], vOutputs = []\<rparr>, [])),
                     SignVirtualPacket = Inr,
                     CreatePassiveAssets = (\<lambda>vs cs. Inr []),
                     SignPassiveAssets = Inr,
                     AnchorVirtualTransactions = (\<lambda>r vs ps. Inr sampleAnchorTx)\<rparr>,
      ProofWriter = (\<lambda>proofs. None),
      ProofReader = (\<lambda>loc. Inr [lAssetID loc, lScriptKey loc]),
      ProofCourierDispatcher = (\<lambda>addr r. Inr \<lparr>DeliverProof = (\<lambda>f. None)\<rparr>),
      ProofWatcher = (\<lambda>proofs. None)\<rparr>"

definition sampleLibrary :: Library where
  "sampleLibrary =
     \<lparr>TxHash = (\<lambda>tx. 77),
      ValidateVPacketVersions = (\<lambda>vs. None),
      ExtractUnSpendable = (\<lambda>c. []),
      ExtractWitnessProgramInfo = Inr,
      schnorr_ParsePubKey = (\<lambda>s. Inr (sum_list s)),
      btcec_ParsePubKey = (\<lambda>s. Inr (sum_list s)),
      ToSerialized = (\<lambda>k. [k]),
      UpdateTransitionProof = (\<lambda>prm prf. Inr (prf\<lparr>pRest := [bBlockHeight prm, bTxIndex prm]\<rparr>)),
      ProofOutPoint = (\<lambda>prf. (77, 0)),
      ProofDecode = (\<lambda>b. Inr \<lparr>pWitnesses = [\<lparr>wPrevID = Some firstPrevID, TxWitness = []\<rparr>],
                             AdditionalInputs = [], pRest = b\<rparr>),
      FileDecode = (\<lambda>b. Inr [b]),
      AppendProof = (\<lambda>f prf. Inr (f @ [pRest prf])),
      FileEncode = (\<lambda>f. Inr (concat f)),
      Verify = (\<lambda>b. None),
      IsUnSpendable = (\<lambda>k. Inr False),
      IsBurnKey = (\<lambda>k w. False),
      ParseCourierAddress = Inr,
      ConvertToTransfer = (\<lambda>h vs a ps isLocal. Inr sampleParcel),
      validateReadyForPublish = (\<lambda>pkg pruned. None)\<rparr>"

definition samplePorter :: ChainPorter where
  "samplePorter =
     \<lparr>cfg = sampleConfig, lib = sampleLibrary,
      sched = \<lparr>selectCase = Confirmed sampleConf, QuitClosed = (\<lambda>s. False)\<rparr>\<rparr>"

text \<open>
  The sample package after the confirmation; a porter for which the suffix of the change
  output spends an input that the parcel does not have; a package that carries one passive
  asset and nothing else.
\<close>

definition confirmedPkg :: sendPackage where
  "confirmedPkg =
     samplePkg\<lparr>SendState := SendStateStoreProofs, TransferTxConfEvent := Some sampleConf\<rparr>"

definition foreignSuffixPorter :: ChainPorter where
  "foreignSuffixPorter =
     samplePorter\<lparr>lib := sampleLibrary\<lparr>ProofDecode :=
       (\<lambda>b. Inr \<lparr>pWitnesses = [\<lparr>wPrevID = Some (if b = [1] then firstPrevID
                                                     else secondPrevID),
                                     TxWitness = []\<rparr>],
                  AdditionalInputs = [], pRest = b\<rparr>)\<rparr>\<rparr>"

definition passivePrevID :: PrevID where
  "passivePrevID = \<lparr>pOutPoint = (5, 1), pID = 2, pScriptKey = [23]\<rparr>"

definition passivePkt :: VPacket where
  "passivePkt =
     \<lparr>vInputs = [\<lparr>viPrevID = passivePrevID\<rparr>],
      vOutputs = [\<lparr>voAsset = \<lparr>aID = 2, aScriptKey = \<lparr>PubKey = 40, TweakedScriptKey = None\<rparr>\<rparr>,
                  voScriptKey = \<lparr>PubKey = 40, TweakedScriptKey = None\<rparr>,
                  voProofSuffix = \<lparr>pWitnesses = [], AdditionalInputs = [], pRest = [9]\<rparr>\<rparr>]\<rparr>"




definition doubleSpendPorter :: ChainPorter where
  "doubleSpendPorter =
     samplePorter\<lparr>cfg := sampleConfig\<lparr>ChainBridge :=
       \<lparr>EstimateFee = Inr 253, CurrentHeight = Inr 100,
        PublishTransaction = (\<lambda>tx. Some (Wrapped ''publish'' ErrDoubleSpend)),
        RegisterConfirmationsNtfn = (\<lambda>h s n. None)\<rparr>\<rparr>\<rparr>"

text \<open>
  A porter whose wait for the confirmation ends with the shutdown; the sample package with
  its final proofs, ready for the transfer of the proofs; a porter whose courier fails to
  deliver; a porter whose dispatcher returns no courier.
\<close>

definition quitPorter :: ChainPorter where
  "quitPorter = samplePorter\<lparr>sched := \<lparr>selectCase = QuitCase, QuitClosed = (\<lambda>s. False)\<rparr>\<rparr>"

definition readyPkg :: sendPackage where
  "readyPkg =
     confirmedPkg\<lparr>SendState := SendStateTransferProofs,
       FinalProofs := Some
         [([31], \<lparr>Locator = \<lparr>lAssetID = 1, lScriptKey = 31, lOutPoint = (77, 0)\<rparr>,
                  Blob = [1, 21, 101, 3]\<rparr>),
          ([32], \<lparr>Locator = \<lparr>lAssetID = 1, lScriptKey = 32, lOutPoint = (77, 0)\<rparr>,
                  Blob = [1, 21, 101, 3]\<rparr>)]\<rparr>"


definition dispatcherFailPorter :: ChainPorter where
  "dispatcherFailPorter =
     samplePorter\<lparr>cfg := sampleConfig\<lparr>ProofCourierDispatcher :=
       (\<lambda>addr r. Inl (Errorf ''connection refused''))\<rparr>\<rparr>"

text \<open>
  A porter whose check of the script key fails, and the remote output without a proof
  courier address (an interactive send).
\<close>

definition unspendableFailPorter :: ChainPorter where
  "unspendableFailPorter =
     samplePorter\<lparr>lib := sampleLibrary\<lparr>IsUnSpendable :=
       (\<lambda>k. Inl (Errorf ''script key has nil public key''))\<rparr>\<rparr>"

definition interactiveOutput :: TransferOutput where
  "interactiveOutput = remoteOutput\<lparr>ProofCourierAddr := []\<rparr>"

section \<open>Properties\<close>

lemmas sample_defs =
  samplePorter_def sampleLibrary_def sampleConfig_def samplePkg_def sampleParcel_def
  sampleConf_def sampleTx_def sampleAnchorTx_def firstPrevID_def secondPrevID_def
  remoteOutput_def changeOutput_def confirmedPkg_def readyPkg_def

text \<open>
  Claim C10. \<^verbatim>\<open>RegisterSubscriber\<close> does not depend on its flags \<open>deliverExisting\<close> and
  \<open>deliverFrom\<close>: two calls that differ only in the flags give the same subscriber map and the
  same result, and for every receiver the map is the old one with the receiver stored under
  its ID (nothing else happens: registration is for future events only) and the error is nil.
\<close>

theorem RegisterSubscriber_ignores_flags:
  "RegisterSubscriber subs receiver e1 f1 = RegisterSubscriber subs receiver e2 f2 \<and>
   RegisterSubscriber subs (Some r) e1 f1 = Returns (subs(receiverID r \<mapsto> r), None) \<and>
   RegisterSubscriber subs (Some r) e2 f2 = Returns (subs(receiverID r \<mapsto> r), None)"
  by (simp add: RegisterSubscriber_def)

subsection \<open>The proof-file updater\<close>

lemma additionalInputProofs_None:
  "additionalInputProofs p rest s = (s', None, ev) \<Longrightarrow>
     \<exists>files. map (\<lambda>i. fst (fetchInputProof p i)) rest = map Inr files \<and>
             s' = s\<lparr>AdditionalInputs := AdditionalInputs s @ files\<rparr>"
proof (induction rest arbitrary: s s' ev)
  case Nil
  then show ?case by simp
next
  case (Cons input rest)
  from Cons.prems obtain f ev1 s1 ev2 where
    f: "fetchInputProof p input = (Inr f, ev1)" and
    r: "additionalInputProofs p rest (s\<lparr>AdditionalInputs := AdditionalInputs s @ [f]\<rparr>)
          = (s', None, ev2)"
    by (auto split: prod.splits sum.splits)
  from Cons.IH[OF r] obtain files where
    fs: "map (\<lambda>i. fst (fetchInputProof p i)) rest = map Inr files" and
    s': "s' = s\<lparr>AdditionalInputs := AdditionalInputs s @ [f]\<rparr>
             \<lparr>AdditionalInputs := AdditionalInputs (s\<lparr>AdditionalInputs := AdditionalInputs s @ [f]\<rparr>) @ files\<rparr>"
    by blast
  have "map (\<lambda>i. fst (fetchInputProof p i)) (input # rest) = map Inr (f # files)"
    using f fs by simp
  moreover have "s' = s\<lparr>AdditionalInputs := AdditionalInputs s @ (f # files)\<rparr>"
    using s' by simp
  ultimately show ?case by blast
qed

text \<open>
  Claim C3. When \<^verbatim>\<open>updateAssetProofFile\<close> is called with a non-empty list of inputs and
  returns a proof, then: the suffix was enriched with the block, height, transaction and
  index of the confirmation; the proof file of the first input was fetched and decoded (the
  trunk); the proof files of the inputs from index 1 on were fetched and appended to
  \<open>AdditionalInputs\<close> of the enriched suffix in the order of the list; the blob of the
  returned proof is the encoding of the trunk with that suffix appended; and the locator is
  the asset ID of the first input, the public key of the new script key and the outpoint of
  the suffix.
\<close>

theorem updateAssetProofFile_splices:
  assumes "inputs \<noteq> []"
    and "updateAssetProofFile p inputs proofSuffix newScriptKey confEvent
           = (Returns (suffix, Inr annotated), ev)"
  shows "\<exists>ce updated trunk files appended.
     confEvent = Some ce \<and>
     UpdateTransitionProof (lib p)
       \<lparr>bBlock = Block ce, bBlockHeight = BlockHeight ce, bTx = Tx ce, bTxIndex = TxIndex ce\<rparr>
       proofSuffix = Inr updated \<and>
     fst (fetchInputProof p (hd inputs)) = Inr trunk \<and>
     map (\<lambda>i. fst (fetchInputProof p i)) (tl inputs) = map Inr files \<and>
     suffix = updated\<lparr>AdditionalInputs := AdditionalInputs updated @ files\<rparr> \<and>
     AppendProof (lib p) trunk suffix = Inr appended \<and>
     FileEncode (lib p) appended = Inr (Blob annotated) \<and>
     Locator annotated = \<lparr>lAssetID = pID (hd inputs), lScriptKey = PubKey newScriptKey,
                           lOutPoint = ProofOutPoint (lib p) suffix\<rparr>"
proof -
  from assms(1) obtain firstInput rest where inputs: "inputs = firstInput # rest"
    by (cases inputs) auto
  from assms(2) inputs obtain ce updated trunk ev1 ev2 appended where
    ce: "confEvent = Some ce" and
    upd: "UpdateTransitionProof (lib p)
       \<lparr>bBlock = Block ce, bBlockHeight = BlockHeight ce, bTx = Tx ce, bTxIndex = TxIndex ce\<rparr>
       proofSuffix = Inr updated" and
    trunk: "fetchInputProof p firstInput = (Inr trunk, ev1)" and
    add: "additionalInputProofs p rest updated = (suffix, None, ev2)" and
    app: "AppendProof (lib p) trunk suffix = Inr appended" and
    enc: "FileEncode (lib p) appended = Inr (Blob annotated)" and
    loc: "Locator annotated = \<lparr>lAssetID = pID firstInput, lScriptKey = PubKey newScriptKey,
                           lOutPoint = ProofOutPoint (lib p) suffix\<rparr>"
    by (auto simp: updateAssetProofFile_def split: option.splits sum.splits prod.splits)
  from additionalInputProofs_None[OF add] obtain files where
    "map (\<lambda>i. fst (fetchInputProof p i)) rest = map Inr files"
    "suffix = updated\<lparr>AdditionalInputs := AdditionalInputs updated @ files\<rparr>"
    by blast
  with ce upd trunk app enc loc inputs show ?thesis by auto
qed

theorem updateAssetProofFile_splices_witness:
  "[firstPrevID, secondPrevID] \<noteq> [] \<and>
   updateAssetProofFile samplePorter [firstPrevID, secondPrevID]
       \<lparr>pWitnesses = [], AdditionalInputs = [], pRest = [9]\<rparr>
       \<lparr>PubKey = 31, TweakedScriptKey = None\<rparr> (Some sampleConf)
     = (Returns (\<lparr>pWitnesses = [], AdditionalInputs = [secondInputFile], pRest = [101, 3]\<rparr>,
          Inr \<lparr>Locator = \<lparr>lAssetID = 1, lScriptKey = 31, lOutPoint = (77, 0)\<rparr>,
               Blob = [1, 21, 101, 3]\<rparr>),
        [Ev_FetchProof \<lparr>lAssetID = 1, lScriptKey = 21, lOutPoint = (5, 0)\<rparr>,
         Ev_FetchProof \<lparr>lAssetID = 1, lScriptKey = 22, lOutPoint = (6, 1)\<rparr>]) \<and>
   (\<exists>trunk appended.
      fst (fetchInputProof samplePorter firstPrevID) = Inr trunk \<and>
      AppendProof (lib samplePorter) trunk
        \<lparr>pWitnesses = [], AdditionalInputs = [secondInputFile], pRest = [101, 3]\<rparr> = Inr appended \<and>
      FileEncode (lib samplePorter) appended = Inr [1, 21, 101, 3])"
proof -
  have h1: "[firstPrevID, secondPrevID] \<noteq> []" by simp
  have h2: "updateAssetProofFile samplePorter [firstPrevID, secondPrevID]
       \<lparr>pWitnesses = [], AdditionalInputs = [], pRest = [9]\<rparr>
       \<lparr>PubKey = 31, TweakedScriptKey = None\<rparr> (Some sampleConf)
     = (Returns (\<lparr>pWitnesses = [], AdditionalInputs = [secondInputFile], pRest = [101, 3]\<rparr>,
          Inr \<lparr>Locator = \<lparr>lAssetID = 1, lScriptKey = 31, lOutPoint = (77, 0)\<rparr>,
               Blob = [1, 21, 101, 3]\<rparr>),
        [Ev_FetchProof \<lparr>lAssetID = 1, lScriptKey = 21, lOutPoint = (5, 0)\<rparr>,
         Ev_FetchProof \<lparr>lAssetID = 1, lScriptKey = 22, lOutPoint = (6, 1)\<rparr>])"
    by (simp add: updateAssetProofFile_def fetchInputProof_def secondInputFile_def sample_defs)
  from updateAssetProofFile_splices[OF h1 h2] have "\<exists>trunk appended.
      fst (fetchInputProof samplePorter firstPrevID) = Inr trunk \<and>
      AppendProof (lib samplePorter) trunk
        \<lparr>pWitnesses = [], AdditionalInputs = [secondInputFile], pRest = [101, 3]\<rparr> = Inr appended \<and>
      FileEncode (lib samplePorter) appended = Inr [1, 21, 101, 3]"
    by (elim exE conjE) (simp only: list.sel AnnotatedProof.simps, blast)
  with h1 h2 show ?thesis by blast
qed

subsection \<open>Storing the proofs\<close>

lemma inputsForAsset_no_match:
  "\<forall>i\<in>set ins. \<forall>w\<in>set (pWitnesses parsedSuffix). wPrevID w \<noteq> Some (tiPrevID i) \<Longrightarrow>
     inputsForAsset ins parsedSuffix = []"
  by (induction ins) (auto simp: inputsForAsset_def filter_empty_conv)

lemma outputProofs_append:
  "outputProofs p c ins pre m = (Returns (m', None), ev) \<Longrightarrow>
   outputProofs p c ins (pre @ rest) m
     = (fst (outputProofs p c ins rest m'), ev @ snd (outputProofs p c ins rest m'))"
proof (induction pre arbitrary: m ev)
  case Nil
  then show ?case by simp
next
  case (Cons out pre)
  from Cons.prems show ?case
    by (auto simp: Let_def Cons.IH
             split: sum.splits prod.splits go.splits option.splits if_splits)
qed

text \<open>
  Claim C9. \<^verbatim>\<open>updateAssetProofFile\<close> reads \<^verbatim>\<open>inputs[0]\<close> without a test: on an empty list
  it panics with an index out of range as soon as the suffix has been enriched. And
  \<^verbatim>\<open>storeProofs\<close> calls it with an empty list: when the passive proofs have been stored,
  the parcel has inputs, the proofs of the outputs before some output have been stored, and
  no witness of the decoded suffix of that output has the \<open>PrevID\<close> of an input of the
  parcel, the list of the inputs for that output is empty and \<^verbatim>\<open>storeProofs\<close>, and with it
  \<^verbatim>\<open>stateStep\<close> in the state \<^verbatim>\<open>SendStateStoreProofs\<close>, panics.
\<close>

theorem storeProofs_empty_inputs_panic:
  assumes "TransferTxConfEvent sendPkg = Some ce"
    and "passiveAssetProofs p (Some ce) (PassiveAssets sendPkg)
           = (Returns (pkts, Inr (files, suffixes)), ev)"
    and "ProofWriter (cfg p) files = None"
    and "suffixes = [] \<or> ProofWatcher (cfg p) suffixes = None"
    and "OutboundPkg sendPkg = Some parcel"
    and "opInputs parcel \<noteq> []"
    and "opOutputs parcel = pre @ out # outs"
    and "outputProofs p (Some ce) (opInputs parcel) pre [] = (Returns (finalProofs, None), ev')"
    and "ProofDecode (lib p) (oProofSuffix out) = Inr parsedSuffix"
    and "\<forall>i\<in>set (opInputs parcel). \<forall>w\<in>set (pWitnesses parsedSuffix).
           wPrevID w \<noteq> Some (tiPrevID i)"
    and "UpdateTransitionProof (lib p)
           \<lparr>bBlock = Block ce, bBlockHeight = BlockHeight ce, bTx = Tx ce,
            bTxIndex = TxIndex ce\<rparr> parsedSuffix = Inr updated"
    and "SendState sendPkg = SendStateStoreProofs"
  shows "updateAssetProofFile p [] parsedSuffix (oScriptKey out) (Some ce)
           = (Panics IndexOutOfRange, []) \<and>
         inputsForAsset (opInputs parcel) parsedSuffix = [] \<and>
         fst (storeProofs p sendPkg) = Panics IndexOutOfRange \<and>
         fst (stateStep p sendPkg) = Panics IndexOutOfRange"
proof -
  have a: "updateAssetProofFile p [] parsedSuffix (oScriptKey out) (Some ce)
             = (Panics IndexOutOfRange, [])"
    using assms(11) by (simp add: updateAssetProofFile_def)
  have b: "inputsForAsset (opInputs parcel) parsedSuffix = []"
    using assms(10) by (rule inputsForAsset_no_match)
  have "fst (outputProofs p (Some ce) (opInputs parcel) (out # outs) finalProofs)
             = Panics IndexOutOfRange"
    using assms(9) a b by simp
  then have c: "fst (outputProofs p (Some ce) (opInputs parcel) (opOutputs parcel) [])
             = Panics IndexOutOfRange"
    using outputProofs_append[OF assms(8), of "out # outs"] assms(7) by simp
  have d: "fst (storeProofs p sendPkg) = Panics IndexOutOfRange"
    using assms(1-6) c
    by (auto simp: storeProofs_def Let_def split: prod.splits go.splits option.splits)
  have e: "fst (stateStep p sendPkg) = Panics IndexOutOfRange"
    using d assms(12)
    by (auto simp: stateStep_def SendState_defs split: prod.splits go.splits)
  from a b d e show ?thesis by simp
qed

theorem storeProofs_empty_inputs_panic_witness:
  "outputProofs foreignSuffixPorter (Some sampleConf) (opInputs sampleParcel) [remoteOutput] []
     = (Returns ([([31], \<lparr>Locator = \<lparr>lAssetID = 1, lScriptKey = 31, lOutPoint = (77, 0)\<rparr>,
                           Blob = [1, 21, 101, 3]\<rparr>)], None),
        [Ev_FetchProof \<lparr>lAssetID = 1, lScriptKey = 21, lOutPoint = (5, 0)\<rparr>,
         Ev_ImportProofs [\<lparr>Locator = \<lparr>lAssetID = 1, lScriptKey = 31, lOutPoint = (77, 0)\<rparr>,
                           Blob = [1, 21, 101, 3]\<rparr>]]) \<and>
   inputsForAsset (opInputs sampleParcel)
      \<lparr>pWitnesses = [\<lparr>wPrevID = Some secondPrevID, TxWitness = []\<rparr>],
       AdditionalInputs = [], pRest = [2]\<rparr> = [] \<and>
   fst (storeProofs foreignSuffixPorter confirmedPkg) = Panics IndexOutOfRange \<and>
   fst (stateStep foreignSuffixPorter confirmedPkg) = Panics IndexOutOfRange"
proof -
  let ?suffix = "\<lparr>pWitnesses = [\<lparr>wPrevID = Some secondPrevID, TxWitness = []\<rparr>],
                  AdditionalInputs = [], pRest = [2]\<rparr>"
  have h1: "TransferTxConfEvent confirmedPkg = Some sampleConf"
    by (simp add: confirmedPkg_def)
  have h2: "passiveAssetProofs foreignSuffixPorter (Some sampleConf) (PassiveAssets confirmedPkg)
              = (Returns ([], Inr ([], [])), [])"
    by (simp add: confirmedPkg_def samplePkg_def)
  have h3: "ProofWriter (cfg foreignSuffixPorter) [] = None"
    by (simp add: foreignSuffixPorter_def samplePorter_def sampleConfig_def)
  have h4: "([] :: Proof list) = [] \<or> ProofWatcher (cfg foreignSuffixPorter) [] = None"
    by simp
  have h5: "OutboundPkg confirmedPkg = Some sampleParcel"
    by (simp add: confirmedPkg_def samplePkg_def)
  have h6: "opInputs sampleParcel \<noteq> []"
    by (simp add: sampleParcel_def)
  have h7: "opOutputs sampleParcel = [remoteOutput] @ changeOutput # []"
    by (simp add: sampleParcel_def)
  have h8: "outputProofs foreignSuffixPorter (Some sampleConf) (opInputs sampleParcel)
              [remoteOutput] []
     = (Returns ([([31], \<lparr>Locator = \<lparr>lAssetID = 1, lScriptKey = 31, lOutPoint = (77, 0)\<rparr>,
                           Blob = [1, 21, 101, 3]\<rparr>)], None),
        [Ev_FetchProof \<lparr>lAssetID = 1, lScriptKey = 21, lOutPoint = (5, 0)\<rparr>,
         Ev_ImportProofs [\<lparr>Locator = \<lparr>lAssetID = 1, lScriptKey = 31, lOutPoint = (77, 0)\<rparr>,
                           Blob = [1, 21, 101, 3]\<rparr>]])"
    by (simp add: updateAssetProofFile_def fetchInputProof_def inputsForAsset_def
                  foreignSuffixPorter_def sample_defs)
  have h9: "ProofDecode (lib foreignSuffixPorter) (oProofSuffix changeOutput) = Inr ?suffix"
    by (simp add: foreignSuffixPorter_def sampleLibrary_def changeOutput_def)
  have h10: "\<forall>i\<in>set (opInputs sampleParcel).
               \<forall>w\<in>set (pWitnesses ?suffix). wPrevID w \<noteq> Some (tiPrevID i)"
    by (simp add: sampleParcel_def firstPrevID_def secondPrevID_def)
  have h11: "UpdateTransitionProof (lib foreignSuffixPorter)
           \<lparr>bBlock = Block sampleConf, bBlockHeight = BlockHeight sampleConf,
            bTx = Tx sampleConf, bTxIndex = TxIndex sampleConf\<rparr> ?suffix
         = Inr \<lparr>pWitnesses = [\<lparr>wPrevID = Some secondPrevID, TxWitness = []\<rparr>],
                AdditionalInputs = [], pRest = [101, 3]\<rparr>"
    by (simp add: foreignSuffixPorter_def sampleLibrary_def sampleConf_def)
  have h12: "SendState confirmedPkg = SendStateStoreProofs"
    by (simp add: confirmedPkg_def)
  from storeProofs_empty_inputs_panic[OF h1 h2 h3 h4 h5 h6 h7 h8 h9 h10 h11 h12] h8
  show ?thesis by blast
qed



text \<open>
  Whatever becomes of the passive proofs: without inputs, a call of \<^verbatim>\<open>storeProofs\<close> that
  returns leaves \<open>FinalProofs\<close> as it was.
\<close>

lemma storeProofs_no_inputs_FinalProofs:
  assumes "OutboundPkg sendPkg = Some parcel"
    and "opInputs parcel = []"
    and "storeProofs p sendPkg = (Returns (pkg', err), ev)"
  shows "FinalProofs pkg' = FinalProofs sendPkg"
  using assms
  by (auto simp: storeProofs_def Let_def
           split: prod.splits go.splits option.splits sum.splits if_splits)

subsection \<open>Unlocking on errors\<close>

lemma unlocked_append [simp]: "unlocked (a @ b) = unlocked a @ unlocked b"
  by (induction a rule: unlocked.induct) simp_all

lemma unlocked_map_UnlockInput [simp]: "unlocked (map Ev_UnlockInput ops) = ops"
  by (induction ops) simp_all

lemma unlocked_unlockInputs [simp]:
  "unlocked (unlockInputs p pkg) = lockedUTXOs (AnchorTx pkg)"
  by (simp add: unlockInputs_def lockedUTXOs_def split: option.splits)








lemma importOutputs_no_unlock:
  "importOutputs p tx outs = (r, ev) \<Longrightarrow> unlocked ev = []"
  by (induction outs arbitrary: r ev)
     (auto simp: Let_def split: prod.splits sum.splits option.splits if_splits)

lemma importLocalAddresses_no_unlock:
  "importLocalAddresses p parcel = (r, ev) \<Longrightarrow> unlocked ev = []"
  by (auto simp: importLocalAddresses_def split: option.splits dest: importOutputs_no_unlock)















subsection \<open>Errors of the broadcast\<close>

lemma advanceState_error:
  assumes "stateStep p pkg = (Returns (r, Some err), ev)"
  shows "set (fst (advanceState p closed pkg)) \<subseteq> {SendState pkg}"
  using assms by (subst advanceState.simps) (auto split: option.splits)

text \<open>
  Claim C2. In \<^verbatim>\<open>SendStateBroadcast\<close>, when the local addresses have been imported and
  \<^verbatim>\<open>PublishTransaction\<close> fails, \<^verbatim>\<open>stateStep\<close> returns the error (wrapped) and no package;
  when the error is a double spend the step has unlocked every locked UTXO of the anchor
  transaction of the package, and otherwise it has unlocked none. The run of
  \<^verbatim>\<open>advanceState\<close> ends there: it executes no state but \<^verbatim>\<open>SendStateBroadcast\<close>, so it never
  enters \<^verbatim>\<open>SendStateWaitTxConf\<close>.
\<close>

theorem Broadcast_publish_error:
  assumes "SendState pkg = SendStateBroadcast"
    and "OutboundPkg pkg = Some parcel"
    and "importLocalAddresses p (Some parcel) = (Returns None, ev0)"
    and "PublishTransaction (ChainBridge (cfg p)) (opAnchorTx parcel) = Some e"
  shows "\<exists>ev. stateStep p pkg
                 = (Returns (None, Some (Wrapped ''unable to broadcast transaction'' e)), ev) \<and>
              unlocked ev = (if errors_Is_ErrDoubleSpend e
                             then lockedUTXOs (AnchorTx pkg) else []) \<and>
              set (fst (advanceState p closed pkg)) \<subseteq> {SendStateBroadcast}"
proof -
  let ?ev = "ev0 @ Ev_PublishTransaction (opAnchorTx parcel) #
               (if errors_Is_ErrDoubleSpend e then unlockInputs p pkg else [])"
  have step: "stateStep p pkg
                = (Returns (None, Some (Wrapped ''unable to broadcast transaction'' e)), ?ev)"
    using assms by (simp add: stateStep_def stepBroadcast_def SendState_defs)
  have "unlocked ev0 = []"
    using assms(3) by (rule importLocalAddresses_no_unlock)
  then have un: "unlocked ?ev = (if errors_Is_ErrDoubleSpend e
                                then lockedUTXOs (AnchorTx pkg) else [])"
    by simp
  from advanceState_error[OF step] assms(1)
  have "set (fst (advanceState p closed pkg)) \<subseteq> {SendStateBroadcast}" by simp
  with step un show ?thesis by blast
qed

theorem Broadcast_publish_error_witness:
  "SendState samplePkg = SendStateBroadcast \<and>
   PublishTransaction (ChainBridge (cfg doubleSpendPorter)) (opAnchorTx sampleParcel)
     = Some (Wrapped ''publish'' ErrDoubleSpend) \<and>
   (\<exists>ev. stateStep doubleSpendPorter samplePkg
            = (Returns (None, Some (Wrapped ''unable to broadcast transaction''
                                      (Wrapped ''publish'' ErrDoubleSpend))), ev) \<and>
          unlocked ev = [(7, 0), (8, 1)]) \<and>
   set (fst (advanceState doubleSpendPorter False samplePkg)) \<subseteq> {SendStateBroadcast}"
proof -
  have h1: "SendState samplePkg = SendStateBroadcast"
    by (simp add: samplePkg_def)
  have h2: "OutboundPkg samplePkg = Some sampleParcel"
    by (simp add: samplePkg_def)
  have h3: "importLocalAddresses doubleSpendPorter (Some sampleParcel)
              = (Returns None, [Ev_ImportTaprootOutput 114])"
    by (simp add: importLocalAddresses_def doubleSpendPorter_def sample_defs)
  have h4: "PublishTransaction (ChainBridge (cfg doubleSpendPorter)) (opAnchorTx sampleParcel)
              = Some (Wrapped ''publish'' ErrDoubleSpend)"
    by (simp add: doubleSpendPorter_def)
  have l: "lockedUTXOs (AnchorTx samplePkg) = [(7, 0), (8, 1)]"
    by (simp add: lockedUTXOs_def samplePkg_def sampleAnchorTx_def)
  from Broadcast_publish_error[OF h1 h2 h3 h4, of False] h1 h4 l show ?thesis
    by auto
qed

subsection \<open>The order of the states\<close>

lemma stateStep_returns_package:
  assumes "stateStep p pkg = (Returns (r, None), ev)"
  shows "\<exists>pkg'. r = Some pkg'"
proof -
  have "stepVirtualCommitmentSelect p pkg = (Returns (r, None), ev) \<Longrightarrow> ?thesis"
    by (auto simp: stepVirtualCommitmentSelect_def split: Parcel.splits sum.splits)
  moreover have "stepVirtualSign p pkg = (Returns (r, None), ev) \<Longrightarrow> ?thesis"
    by (auto simp: stepVirtualSign_def split: option.splits go.splits sum.splits)
  moreover have "stepAnchorSign p pkg = (Returns (r, None), ev) \<Longrightarrow> ?thesis"
    by (auto simp: stepAnchorSign_def split: option.splits sum.splits go.splits)
  moreover have "stepStorePreBroadcast p pkg = (Returns (r, None), ev) \<Longrightarrow> ?thesis"
    by (auto simp: stepStorePreBroadcast_def Let_def split: option.splits sum.splits)
  moreover have "stepBroadcast p pkg = (Returns (r, None), ev) \<Longrightarrow> ?thesis"
    by (auto simp: stepBroadcast_def split: option.splits prod.splits go.splits if_splits)
  ultimately show ?thesis
    using assms
    by (auto simp: stateStep_def split: if_splits prod.splits go.splits)
qed

lemma advanceState_closed: "advanceState p True pkg = ([], [], Returns pkg)"
  by (subst advanceState.simps) simp

lemma advanceState_executed:
  "advanceState p closed pkg = (executed, evs, res) \<Longrightarrow>
     sorted_wrt (<) executed \<and> (\<forall>s\<in>set executed. SendState pkg \<le> s) \<and>
     (\<forall>pkg'. res = Returns pkg' \<longrightarrow> SendState pkg \<le> SendState pkg')"
proof (induction p closed pkg arbitrary: executed evs res rule: advanceState.induct)
  case (1 p closed pkg)
  note run = "1.prems"
  show ?case
  proof (cases "SendState pkg < SendStateComplete \<and> \<not> (closed \<or> QuitClosed (sched p) (SendState pkg))")
    case False
    with run have "executed = [] \<and> res = Returns pkg"
      by (subst (asm) advanceState.simps) (auto split: if_splits)
    then show ?thesis by simp
  next
    case True
    obtain g ev where st: "stateStep p pkg = (g, ev)" by (cases "stateStep p pkg")
    show ?thesis
    proof (cases "\<exists>upd. g = Returns (Some upd, None)")
      case False
      with run True st have "executed = [SendState pkg] \<and> (res = Returns pkg \<or> (\<exists>pn. res = Panics pn))"
        by (subst (asm) advanceState.simps)
           (auto split: go.splits option.splits prod.splits)
      then show ?thesis by auto
    next
      case upd: True
      then obtain upd where g: "g = Returns (Some upd, None)" by blast
      obtain ex' evs' r' where
        rec: "advanceState p (Ev_QuitReceived \<in> set ev) upd = (ex', evs', r')"
        by (cases "advanceState p (Ev_QuitReceived \<in> set ev) upd")
      from run True st g rec have ex: "executed = SendState pkg # ex'" and res: "res = r'"
        by (subst (asm) advanceState.simps, simp)+
      from "1.IH"[OF _ _ st[symmetric] g refl refl refl rec] True
      have IH: "sorted_wrt (<) ex'" "\<forall>s\<in>set ex'. SendState upd \<le> s"
        "\<forall>pkg'. r' = Returns pkg' \<longrightarrow> SendState upd \<le> SendState pkg'"
        by auto
      from st g have prog: "SendState pkg < SendState upd \<or>
          (SendState upd = SendState pkg \<and> Ev_QuitReceived \<in> set ev)"
        by (auto dest: stateStep_progress)
      show ?thesis
      proof (cases "Ev_QuitReceived \<in> set ev")
        case True
        with rec have "ex' = [] \<and> r' = Returns upd"
          by (simp add: advanceState_closed)
        with ex res prog show ?thesis by auto
      next
        case False
        with prog have "SendState pkg < SendState upd" by simp
        with IH ex res show ?thesis by fastforce
      qed
    qed
  qed
qed

text \<open>
  Claim C4. When \<^verbatim>\<open>stateStep\<close> returns without an error it returns a package, and the
  state of that package is not below the state of the package it was given. In a run of
  \<^verbatim>\<open>advanceState\<close> the states executed are strictly increasing, so no state is executed
  twice and none below the state the run started in, and the package the run ends with is
  not in an earlier state than the package it started with.
\<close>

theorem SendState_never_decreases:
  "(stateStep p pkg = (Returns (r, None), ev) \<longrightarrow>
      (\<exists>pkg'. r = Some pkg' \<and> SendState pkg \<le> SendState pkg')) \<and>
   (advanceState p closed pkg = (executed, evs, res) \<longrightarrow>
      sorted_wrt (<) executed \<and> (\<forall>s\<in>set executed. SendState pkg \<le> s) \<and>
      (\<forall>pkg'. res = Returns pkg' \<longrightarrow> SendState pkg \<le> SendState pkg'))"
proof (intro conjI impI)
  assume st: "stateStep p pkg = (Returns (r, None), ev)"
  from stateStep_returns_package[OF st] obtain pkg' where r: "r = Some pkg'" by blast
  with st have "SendState pkg \<le> SendState pkg'"
    by (auto dest: stateStep_progress)
  with r show "\<exists>pkg'. r = Some pkg' \<and> SendState pkg \<le> SendState pkg'" by blast
next
  assume run: "advanceState p closed pkg = (executed, evs, res)"
  from advanceState_executed[OF run]
  show "sorted_wrt (<) executed" "\<forall>s\<in>set executed. SendState pkg \<le> s"
    "\<forall>pkg'. res = Returns pkg' \<longrightarrow> SendState pkg \<le> SendState pkg'"
    by blast+
qed

theorem SendState_never_decreases_witness:
  "stateStep samplePorter samplePkg
     = (Returns (Some (samplePkg\<lparr>SendState := SendStateWaitTxConf\<rparr>), None),
        [Ev_ImportTaprootOutput 114, Ev_PublishTransaction sampleTx, Ev_TxBroadcastResp]) \<and>
   SendState samplePkg \<le> SendState (samplePkg\<lparr>SendState := SendStateWaitTxConf\<rparr>) \<and>
   fst (advanceState samplePorter False samplePkg)
     = [SendStateBroadcast, SendStateWaitTxConf, SendStateStoreProofs,
        SendStateTransferProofs] \<and>
   sorted_wrt (<) (fst (advanceState samplePorter False samplePkg))"
proof -
  have st: "stateStep samplePorter samplePkg
     = (Returns (Some (samplePkg\<lparr>SendState := SendStateWaitTxConf\<rparr>), None),
        [Ev_ImportTaprootOutput 114, Ev_PublishTransaction sampleTx, Ev_TxBroadcastResp])"
    by (simp add: stateStep_def stepBroadcast_def importLocalAddresses_def
                  samplePorter_def sampleLibrary_def sampleConfig_def samplePkg_def
                  sampleParcel_def remoteOutput_def changeOutput_def sampleTx_def
                  SendState_defs)
  have run: "fst (advanceState samplePorter False samplePkg)
     = [SendStateBroadcast, SendStateWaitTxConf, SendStateStoreProofs,
        SendStateTransferProofs]"
    by (simp add: advanceState.simps stateStep_def stepBroadcast_def importLocalAddresses_def
                  waitForTransferTxConf_def storeProofs_def updateAssetProofFile_def
                  fetchInputProof_def inputsForAsset_def sample_defs SendState_defs)
  have run': "advanceState samplePorter False samplePkg
     = (fst (advanceState samplePorter False samplePkg),
        fst (snd (advanceState samplePorter False samplePkg)),
        snd (snd (advanceState samplePorter False samplePkg)))"
    by simp
  from SendState_never_decreases[of samplePorter samplePkg
         "Some (samplePkg\<lparr>SendState := SendStateWaitTxConf\<rparr>)"
         "[Ev_ImportTaprootOutput 114, Ev_PublishTransaction sampleTx, Ev_TxBroadcastResp]"
         False "fst (advanceState samplePorter False samplePkg)"
         "fst (snd (advanceState samplePorter False samplePkg))"
         "snd (snd (advanceState samplePorter False samplePkg))"] st run run'
  show ?thesis by auto
qed

subsection \<open>The shutdown during the wait\<close>

text \<open>
  Claim C6. When the package waits for the confirmation (its outbound parcel is there, the
  anchor transaction has an output, the registration with the chain bridge has succeeded)
  and the \<^verbatim>\<open>select\<close> takes the case of the closed channel \<^verbatim>\<open>Quit\<close>,
  \<^verbatim>\<open>waitForTransferTxConf\<close> returns no error and leaves the package as it was, in
  \<^verbatim>\<open>SendStateWaitTxConf\<close>; so does \<^verbatim>\<open>stateStep\<close>, and the run of \<^verbatim>\<open>advanceState\<close> ends
  with that package, having executed no other state.
\<close>

theorem waitForTransferTxConf_quit:
  assumes "SendState pkg = SendStateWaitTxConf"
    and "OutboundPkg pkg = Some parcel"
    and "TxOut (opAnchorTx parcel) = txOut0 # txOuts"
    and "RegisterConfirmationsNtfn (ChainBridge (cfg p)) (TxHash (lib p) (opAnchorTx parcel))
           (PkScript txOut0) (AnchorTxHeightHint parcel) = None"
    and "selectCase (sched p) = QuitCase"
  shows "fst (waitForTransferTxConf p pkg) = Returns (pkg, None) \<and>
         fst (stateStep p pkg) = Returns (Some pkg, None) \<and>
         snd (snd (advanceState p closed pkg)) = Returns pkg \<and>
         set (fst (advanceState p closed pkg)) \<subseteq> {SendStateWaitTxConf}"
proof -
  have w: "waitForTransferTxConf p pkg
             = (Returns (pkg, None),
                [Ev_RegisterConfirmationsNtfn (TxHash (lib p) (opAnchorTx parcel)),
                 Ev_QuitReceived])"
    using assms by (simp add: waitForTransferTxConf_def Let_def)
  then have s: "stateStep p pkg
             = (Returns (Some pkg, None),
                [Ev_RegisterConfirmationsNtfn (TxHash (lib p) (opAnchorTx parcel)),
                 Ev_QuitReceived])"
    using assms(1) by (simp add: stateStep_def SendState_defs)
  have a: "snd (snd (advanceState p closed pkg)) = Returns pkg \<and>
           set (fst (advanceState p closed pkg)) \<subseteq> {SendStateWaitTxConf}"
    using s assms(1)
    by (subst (1 2) advanceState.simps) (simp add: advanceState_closed)
  from w s a show ?thesis by simp
qed

theorem waitForTransferTxConf_quit_witness:
  "selectCase (sched quitPorter) = QuitCase \<and>
   fst (waitForTransferTxConf quitPorter (samplePkg\<lparr>SendState := SendStateWaitTxConf\<rparr>))
     = Returns (samplePkg\<lparr>SendState := SendStateWaitTxConf\<rparr>, None) \<and>
   fst (stateStep quitPorter (samplePkg\<lparr>SendState := SendStateWaitTxConf\<rparr>))
     = Returns (Some (samplePkg\<lparr>SendState := SendStateWaitTxConf\<rparr>), None) \<and>
   snd (snd (advanceState quitPorter False (samplePkg\<lparr>SendState := SendStateWaitTxConf\<rparr>)))
     = Returns (samplePkg\<lparr>SendState := SendStateWaitTxConf\<rparr>)"
proof -
  have h1: "SendState (samplePkg\<lparr>SendState := SendStateWaitTxConf\<rparr>) = SendStateWaitTxConf"
    by simp
  have h2: "OutboundPkg (samplePkg\<lparr>SendState := SendStateWaitTxConf\<rparr>) = Some sampleParcel"
    by (simp add: samplePkg_def)
  have h3: "TxOut (opAnchorTx sampleParcel)
              = \<lparr>PkScript = [81, 32], Value = 1000\<rparr> # [\<lparr>PkScript = [81, 33], Value = 1000\<rparr>]"
    by (simp add: sampleParcel_def sampleTx_def)
  have h4: "RegisterConfirmationsNtfn (ChainBridge (cfg quitPorter))
              (TxHash (lib quitPorter) (opAnchorTx sampleParcel))
              (PkScript \<lparr>PkScript = [81, 32], Value = 1000\<rparr>)
              (AnchorTxHeightHint sampleParcel) = None"
    by (simp add: quitPorter_def samplePorter_def sampleConfig_def)
  have h5: "selectCase (sched quitPorter) = QuitCase"
    by (simp add: quitPorter_def)
  from waitForTransferTxConf_quit[OF h1 h2 h3 h4 h5, of False] h5 show ?thesis
    by simp
qed

text \<open>
  The case of the cancelled context is another case of the \<^verbatim>\<open>select\<close>: it leaves the
  package as it was too, but the function returns an error, since there is no confirmation
  event.
\<close>

lemma waitForTransferTxConf_context_done:
  assumes "OutboundPkg pkg = Some parcel"
    and "TxOut (opAnchorTx parcel) = txOut0 # txOuts"
    and "RegisterConfirmationsNtfn (ChainBridge (cfg p)) (TxHash (lib p) (opAnchorTx parcel))
           (PkScript txOut0) (AnchorTxHeightHint parcel) = None"
    and "selectCase (sched p) = CtxDone"
  shows "fst (waitForTransferTxConf p pkg)
           = Returns (pkg, Some (Errorf ''got empty package tx confirmation event in batch''))"
  using assms by (simp add: waitForTransferTxConf_def Let_def)

subsection \<open>The transfer of the proofs\<close>








text \<open>
  On the sample transfer every delivery returns nil and the parcel is completed: the
  confirmation in the export log and the event of \<^verbatim>\<open>SendStateComplete\<close> end the trace.
\<close>

lemma transferReceiverProof_sample:
  "transferReceiverProof samplePorter readyPkg
     = (Returns (readyPkg\<lparr>SendState := SendStateComplete\<rparr>, None),
        [Ev_NewCourier [104] \<lparr>rScriptKey = 31, rAssetID = 1, rAmount = 1200\<rparr>,
         Ev_SetSubscribers,
         Ev_DeliverProof \<lparr>Locator = \<lparr>lAssetID = 1, lScriptKey = 31, lOutPoint = (77, 0)\<rparr>,
                          Blob = [1, 21, 101, 3]\<rparr>,
         Ev_CourierClose,
         Ev_ConfirmParcelDelivery
           \<lparr>AnchorTXID = 77, ceBlockHash = 500, ceBlockHeight = 101, ceTxIndex = 3,
            ceFinalProofs = FinalProofs readyPkg, PassiveAssetProofFiles = []\<rparr>,
         Ev_SubscriberEvent SendStateComplete None])"
  by (simp add: transferReceiverProof_def deliver_def sample_defs)

text \<open>
  Claim C7, as amended. A delivery is skipped (\<^verbatim>\<open>deliver\<close> returns nil and calls neither
  the dispatcher nor a courier) if and only if one of the four conditions holds (local
  output, unspendable script key, burn, no courier address) and the output is local or the
  check \<^verbatim>\<open>IsUnSpendable\<close> has returned no error. For every other output, whatever the
  reason it is not skipped, \<^verbatim>\<open>deliver\<close> does exactly one of these: the check
  \<^verbatim>\<open>IsUnSpendable\<close> has failed and its error is returned; or the script key is spendable
  and there is no final proof for it, or the courier address does not parse, or the
  dispatcher returns no courier, and that error is returned, each time without a call of
  \<^verbatim>\<open>DeliverProof\<close>; or the script key is spendable and the final proof is handed to the
  courier that the dispatcher has returned, with nil for a success or a backoff error and
  the wrapped error of the courier otherwise.
\<close>

theorem deliver_skips:
  "(deliver p pkg out = (None, []) \<longleftrightarrow>
      skipDelivery p out \<and>
      ((ScriptKeyLocal out \<and> TweakedScriptKey (oScriptKey out) \<noteq> None) \<or>
       (\<forall>e. IsUnSpendable (lib p) (oScriptKey out) \<noteq> Inl e))) \<and>
   (deliver p pkg out \<noteq> (None, []) \<longrightarrow>
      (\<exists>e. IsUnSpendable (lib p) (oScriptKey out) = Inl e \<and>
           deliver p pkg out
             = (Some (Wrapped ''error checking if script key is unspendable'' e), [])) \<or>
      (IsUnSpendable (lib p) (oScriptKey out) = Inr False \<and>
      ((findReceiverProof (case FinalProofs pkg of None \<Rightarrow> [] | Some m \<Rightarrow> m)
           (PubKey (oScriptKey out)) = None \<and>
       deliver p pkg out = (Some (Errorf ''no proof found for output with script key''), [])) \<or>
      (\<exists>receiverProof e.
         findReceiverProof (case FinalProofs pkg of None \<Rightarrow> [] | Some m \<Rightarrow> m)
           (PubKey (oScriptKey out)) = Some receiverProof \<and>
         ParseCourierAddress (lib p) (ProofCourierAddr out) = Inl e \<and>
         deliver p pkg out
           = (Some (Wrapped ''failed to parse proof courier address'' e), [])) \<or>
      (\<exists>receiverProof addr e.
         findReceiverProof (case FinalProofs pkg of None \<Rightarrow> [] | Some m \<Rightarrow> m)
           (PubKey (oScriptKey out)) = Some receiverProof \<and>
         ParseCourierAddress (lib p) (ProofCourierAddr out) = Inr addr \<and>
         ProofCourierDispatcher (cfg p) addr
           \<lparr>rScriptKey = PubKey (oScriptKey out), rAssetID = lAssetID (Locator receiverProof),
            rAmount = Amount out\<rparr> = Inl e \<and>
         deliver p pkg out
           = (Some (Wrapped ''unable to initiate proof courier service handle'' e),
              [Ev_NewCourier addr
                 \<lparr>rScriptKey = PubKey (oScriptKey out),
                  rAssetID = lAssetID (Locator receiverProof), rAmount = Amount out\<rparr>])) \<or>
      (\<exists>receiverProof addr courier.
         findReceiverProof (case FinalProofs pkg of None \<Rightarrow> [] | Some m \<Rightarrow> m)
           (PubKey (oScriptKey out)) = Some receiverProof \<and>
         ParseCourierAddress (lib p) (ProofCourierAddr out) = Inr addr \<and>
         ProofCourierDispatcher (cfg p) addr
           \<lparr>rScriptKey = PubKey (oScriptKey out), rAssetID = lAssetID (Locator receiverProof),
            rAmount = Amount out\<rparr> = Inr courier \<and>
         deliver p pkg out =
           ((case DeliverProof courier receiverProof of
               None \<Rightarrow> None
             | Some e \<Rightarrow>
                 if errors_As_BackoffExecError e then None
                 else Some (Wrapped ''failed to deliver proof via courier service'' e)),
            [Ev_NewCourier addr
               \<lparr>rScriptKey = PubKey (oScriptKey out),
                rAssetID = lAssetID (Locator receiverProof), rAmount = Amount out\<rparr>,
             Ev_SetSubscribers, Ev_DeliverProof receiverProof, Ev_CourierClose])))))"
proof (intro conjI impI)
  show "deliver p pkg out = (None, []) \<longleftrightarrow>
      skipDelivery p out \<and>
      ((ScriptKeyLocal out \<and> TweakedScriptKey (oScriptKey out) \<noteq> None) \<or>
       (\<forall>e. IsUnSpendable (lib p) (oScriptKey out) \<noteq> Inl e))"
    by (cases "IsUnSpendable (lib p) (oScriptKey out)")
       (auto simp: deliver_def skipDelivery_def Let_def
             split: sum.splits option.splits list.splits if_splits)
next
  let ?find = "findReceiverProof (case FinalProofs pkg of None \<Rightarrow> [] | Some m \<Rightarrow> m)
                 (PubKey (oScriptKey out))"
  assume ns: "deliver p pkg out \<noteq> (None, [])"
  show "(\<exists>e. IsUnSpendable (lib p) (oScriptKey out) = Inl e \<and>
           deliver p pkg out
             = (Some (Wrapped ''error checking if script key is unspendable'' e), [])) \<or>
      (IsUnSpendable (lib p) (oScriptKey out) = Inr False \<and>
      ((?find = None \<and>
       deliver p pkg out = (Some (Errorf ''no proof found for output with script key''), [])) \<or>
      (\<exists>receiverProof e.
         ?find = Some receiverProof \<and>
         ParseCourierAddress (lib p) (ProofCourierAddr out) = Inl e \<and>
         deliver p pkg out
           = (Some (Wrapped ''failed to parse proof courier address'' e), [])) \<or>
      (\<exists>receiverProof addr e.
         ?find = Some receiverProof \<and>
         ParseCourierAddress (lib p) (ProofCourierAddr out) = Inr addr \<and>
         ProofCourierDispatcher (cfg p) addr
           \<lparr>rScriptKey = PubKey (oScriptKey out), rAssetID = lAssetID (Locator receiverProof),
            rAmount = Amount out\<rparr> = Inl e \<and>
         deliver p pkg out
           = (Some (Wrapped ''unable to initiate proof courier service handle'' e),
              [Ev_NewCourier addr
                 \<lparr>rScriptKey = PubKey (oScriptKey out),
                  rAssetID = lAssetID (Locator receiverProof), rAmount = Amount out\<rparr>])) \<or>
      (\<exists>receiverProof addr courier.
         ?find = Some receiverProof \<and>
         ParseCourierAddress (lib p) (ProofCourierAddr out) = Inr addr \<and>
         ProofCourierDispatcher (cfg p) addr
           \<lparr>rScriptKey = PubKey (oScriptKey out), rAssetID = lAssetID (Locator receiverProof),
            rAmount = Amount out\<rparr> = Inr courier \<and>
         deliver p pkg out =
           ((case DeliverProof courier receiverProof of
               None \<Rightarrow> None
             | Some e \<Rightarrow>
                 if errors_As_BackoffExecError e then None
                 else Some (Wrapped ''failed to deliver proof via courier service'' e)),
            [Ev_NewCourier addr
               \<lparr>rScriptKey = PubKey (oScriptKey out),
                rAssetID = lAssetID (Locator receiverProof), rAmount = Amount out\<rparr>,
             Ev_SetSubscribers, Ev_DeliverProof receiverProof, Ev_CourierClose]))))"
  proof (cases "IsUnSpendable (lib p) (oScriptKey out)")
    case (Inl e)
    with ns show ?thesis
      by (auto simp: deliver_def Let_def split: if_splits)
  next
    case (Inr u)
    with ns have spendable: "IsUnSpendable (lib p) (oScriptKey out) = Inr False"
      by (cases u) (auto simp: deliver_def Let_def split: if_splits)
    from Inr ns have past: "deliver p pkg out =
        (case ?find of
           None \<Rightarrow> (Some (Errorf ''no proof found for output with script key''), [])
         | Some receiverProof \<Rightarrow>
           (case ParseCourierAddress (lib p) (ProofCourierAddr out) of
              Inl e \<Rightarrow> (Some (Wrapped ''failed to parse proof courier address'' e), [])
            | Inr addr \<Rightarrow>
              (case ProofCourierDispatcher (cfg p) addr
                      \<lparr>rScriptKey = PubKey (oScriptKey out),
                       rAssetID = lAssetID (Locator receiverProof), rAmount = Amount out\<rparr> of
                 Inl e \<Rightarrow>
                   (Some (Wrapped ''unable to initiate proof courier service handle'' e),
                    [Ev_NewCourier addr
                       \<lparr>rScriptKey = PubKey (oScriptKey out),
                        rAssetID = lAssetID (Locator receiverProof), rAmount = Amount out\<rparr>])
               | Inr courier \<Rightarrow>
                   ((case DeliverProof courier receiverProof of
                       None \<Rightarrow> None
                     | Some e \<Rightarrow>
                         if errors_As_BackoffExecError e then None
                         else Some (Wrapped ''failed to deliver proof via courier service'' e)),
                    [Ev_NewCourier addr
                       \<lparr>rScriptKey = PubKey (oScriptKey out),
                        rAssetID = lAssetID (Locator receiverProof), rAmount = Amount out\<rparr>,
                     Ev_SetSubscribers, Ev_DeliverProof receiverProof, Ev_CourierClose]))))"
      by (auto simp: deliver_def Let_def split: if_splits option.splits sum.splits)
    show ?thesis
    proof (cases ?find)
      case None
      with past spendable show ?thesis by simp
    next
      case (Some receiverProof)
      note found = this
      show ?thesis
      proof (cases "ParseCourierAddress (lib p) (ProofCourierAddr out)")
        case (Inl e)
        with past found spendable show ?thesis by simp
      next
        case (Inr addr)
        note parsed = this
        show ?thesis
        proof (cases "ProofCourierDispatcher (cfg p) addr
                 \<lparr>rScriptKey = PubKey (oScriptKey out),
                  rAssetID = lAssetID (Locator receiverProof), rAmount = Amount out\<rparr>")
          case (Inl e)
          with past found parsed spendable show ?thesis by simp
        next
          case (Inr courier)
          with past found parsed spendable show ?thesis by simp
        qed
      qed
    qed
  qed
qed

theorem deliver_skips_witness:
  "skipDelivery samplePorter changeOutput \<and>
   deliver samplePorter readyPkg changeOutput = (None, []) \<and>
   \<not> skipDelivery samplePorter remoteOutput \<and>
   deliver samplePorter readyPkg remoteOutput
     = (None,
        [Ev_NewCourier [104] \<lparr>rScriptKey = 31, rAssetID = 1, rAmount = 1200\<rparr>,
         Ev_SetSubscribers,
         Ev_DeliverProof \<lparr>Locator = \<lparr>lAssetID = 1, lScriptKey = 31, lOutPoint = (77, 0)\<rparr>,
                          Blob = [1, 21, 101, 3]\<rparr>,
         Ev_CourierClose]) \<and>
   skipDelivery unspendableFailPorter interactiveOutput \<and>
   deliver unspendableFailPorter readyPkg interactiveOutput
     = (Some (Wrapped ''error checking if script key is unspendable''
                (Errorf ''script key has nil public key'')), [])"
proof -
  have s1: "skipDelivery samplePorter changeOutput"
    by (simp add: skipDelivery_def changeOutput_def)
  have u: "\<forall>e. IsUnSpendable (lib samplePorter) (oScriptKey changeOutput) \<noteq> Inl e"
    by (simp add: samplePorter_def sampleLibrary_def)
  have s2: "\<not> skipDelivery samplePorter remoteOutput"
    by (simp add: skipDelivery_def remoteOutput_def samplePorter_def sampleLibrary_def)
  have d: "deliver samplePorter readyPkg remoteOutput
     = (None,
        [Ev_NewCourier [104] \<lparr>rScriptKey = 31, rAssetID = 1, rAmount = 1200\<rparr>,
         Ev_SetSubscribers,
         Ev_DeliverProof \<lparr>Locator = \<lparr>lAssetID = 1, lScriptKey = 31, lOutPoint = (77, 0)\<rparr>,
                          Blob = [1, 21, 101, 3]\<rparr>,
         Ev_CourierClose])"
    by (simp add: deliver_def sample_defs)
  have s3: "skipDelivery unspendableFailPorter interactiveOutput"
    by (simp add: skipDelivery_def interactiveOutput_def)
  have l: "\<not> (ScriptKeyLocal interactiveOutput \<and>
               TweakedScriptKey (oScriptKey interactiveOutput) \<noteq> None)"
    by (simp add: interactiveOutput_def remoteOutput_def)
  have f: "IsUnSpendable (lib unspendableFailPorter) (oScriptKey interactiveOutput)
             = Inl (Errorf ''script key has nil public key'')"
    by (simp add: unspendableFailPorter_def)
  from deliver_skips[of samplePorter readyPkg changeOutput] s1 u
  have a: "deliver samplePorter readyPkg changeOutput = (None, [])" by blast
  from deliver_skips[of unspendableFailPorter readyPkg interactiveOutput] l f
  have "deliver unspendableFailPorter readyPkg interactiveOutput \<noteq> (None, [])" by simp
  with deliver_skips[of unspendableFailPorter readyPkg interactiveOutput] f
  have b: "deliver unspendableFailPorter readyPkg interactiveOutput
     = (Some (Wrapped ''error checking if script key is unspendable''
                (Errorf ''script key has nil public key'')), [])"
    by simp
  from a b s1 s2 s3 d show ?thesis by simp
qed

text \<open>
  Claim C7 as stated fails: when the dispatcher returns an error for an output that is not
  skipped, \<^verbatim>\<open>deliver\<close> returns that error and the proof is not delivered by any courier.
\<close>

theorem dispatcher_failure_no_delivery:
  "\<not> skipDelivery dispatcherFailPorter remoteOutput \<and>
   deliver dispatcherFailPorter readyPkg remoteOutput
     = (Some (Wrapped ''unable to initiate proof courier service handle''
                (Errorf ''connection refused'')),
        [Ev_NewCourier [104] \<lparr>rScriptKey = 31, rAssetID = 1, rAmount = 1200\<rparr>])"
  by (simp add: deliver_def skipDelivery_def dispatcherFailPorter_def sample_defs)

end
